theory Spec2Isabelle
  imports Main "HOL-Library.Monad_Syntax" "HOL-Library.Sublist" "HOL-Library.AList"
begin

section \<open>The 1Password provider: items, sections and the command-line client\<close>

text \<open>
  A shallow embedding of \<^verbatim>\<open>onepassword/item.go\<close>,
  \<^verbatim>\<open>onepassword/resource_item_identity.go\<close> and
  \<^verbatim>\<open>onepassword/resource_item_document.go\<close>.
  Go strings are byte strings and are modelled as \<^typ>\<open>string\<close>; a value of type
  \<^verbatim>\<open>interface{}\<close> is a \<open>val\<close>; a Go map with string keys is an association
  list that is only ever changed by \<^const>\<open>AList.update\<close>, so its keys stay distinct.
  The order of such a list carries no meaning: \<^const>\<open>map_of\<close> reads the map. A panic
  of the Go runtime is \<open>None\<close> in an expression and the error \<open>Panic\<close> in a function
  that returns errors.
\<close>

subsection \<open>Categories and templates\<close>

type_synonym Category = string

definition LoginCategory :: Category where "LoginCategory = ''Login''"
definition IdentityCategory :: Category where "IdentityCategory = ''Identity''"
definition DatabaseCategory :: Category where "DatabaseCategory = ''Database''"
definition MembershipCategory :: Category where "MembershipCategory = ''Membership''"
definition WirelessRouterCategory :: Category where "WirelessRouterCategory = ''Wireless Router''"
definition SecureNoteCategory :: Category where "SecureNoteCategory = ''Secure Note''"
definition SoftwareLicenseCategory :: Category where "SoftwareLicenseCategory = ''Software License''"
definition CreditCardCategory :: Category where "CreditCardCategory = ''Credit Card''"
definition DriverLicenseCategory :: Category where "DriverLicenseCategory = ''Driver License''"
definition OutdoorLicenseCategory :: Category where "OutdoorLicenseCategory = ''Outdoor License''"
definition PassportCategory :: Category where "PassportCategory = ''Passport''"
definition EmailAccountCategory :: Category where "EmailAccountCategory = ''Email Account''"
definition PasswordCategory :: Category where "PasswordCategory = ''Password''"
definition RewardProgramCategory :: Category where "RewardProgramCategory = ''Reward Program''"
definition SocialSecurityNumberCategory :: Category where
  "SocialSecurityNumberCategory = ''Social Security Number''"
definition BankAccountCategory :: Category where "BankAccountCategory = ''Bank Account''"
definition DocumentCategory :: Category where "DocumentCategory = ''Document''"
definition ServerCategory :: Category where "ServerCategory = ''Server''"
definition UnknownCategory :: Category where "UnknownCategory = ''UNKNOWN''"

text \<open>The two \<^verbatim>\<open>switch\<close> statements, case by case in the order of the source.\<close>

definition Category2Template :: "Category \<Rightarrow> string" where
  "Category2Template c =
    (if c = LoginCategory then ''001''
     else if c = IdentityCategory then ''004''
     else if c = PasswordCategory then ''005''
     else if c = PassportCategory then ''106''
     else if c = DatabaseCategory then ''102''
     else if c = ServerCategory then ''010''
     else if c = DriverLicenseCategory then ''103''
     else if c = OutdoorLicenseCategory then ''104''
     else if c = SoftwareLicenseCategory then ''100''
     else if c = EmailAccountCategory then ''111''
     else if c = RewardProgramCategory then ''107''
     else if c = WirelessRouterCategory then ''109''
     else if c = DocumentCategory then ''006''
     else if c = BankAccountCategory then ''101''
     else if c = SocialSecurityNumberCategory then ''108''
     else if c = CreditCardCategory then ''002''
     else if c = SecureNoteCategory then ''003''
     else if c = MembershipCategory then ''105''
     else ''000'')"

definition Template2Category :: "string \<Rightarrow> Category" where
  "Template2Category t =
    (if t = ''001'' then LoginCategory
     else if t = ''004'' then IdentityCategory
     else if t = ''005'' then PasswordCategory
     else if t = ''106'' then PassportCategory
     else if t = ''102'' then DatabaseCategory
     else if t = ''010'' then ServerCategory
     else if t = ''103'' then DriverLicenseCategory
     else if t = ''104'' then OutdoorLicenseCategory
     else if t = ''100'' then SoftwareLicenseCategory
     else if t = ''111'' then EmailAccountCategory
     else if t = ''107'' then RewardProgramCategory
     else if t = ''109'' then WirelessRouterCategory
     else if t = ''006'' then DocumentCategory
     else if t = ''101'' then BankAccountCategory
     else if t = ''108'' then SocialSecurityNumberCategory
     else if t = ''002'' then CreditCardCategory
     else if t = ''003'' then SecureNoteCategory
     else if t = ''105'' then MembershipCategory
     else UnknownCategory)"

text \<open>The registry: the categories, and the template identifiers, that the switches name.\<close>

definition registry :: "Category list" where
  "registry =
    [LoginCategory, IdentityCategory, PasswordCategory, PassportCategory, DatabaseCategory,
     ServerCategory, DriverLicenseCategory, OutdoorLicenseCategory, SoftwareLicenseCategory,
     EmailAccountCategory, RewardProgramCategory, WirelessRouterCategory, DocumentCategory,
     BankAccountCategory, SocialSecurityNumberCategory, CreditCardCategory, SecureNoteCategory,
     MembershipCategory]"

definition templates :: "string list" where
  "templates =
    [''001'', ''004'', ''005'', ''106'', ''102'', ''010'', ''103'', ''104'', ''100'', ''111'',
     ''107'', ''109'', ''006'', ''101'', ''108'', ''002'', ''003'', ''105'']"

subsection \<open>Values, sections and items\<close>

text \<open>
  A value of type \<^verbatim>\<open>interface{}\<close>: nil, a string, an integer, a boolean, a slice or a
  map with string keys.
\<close>

datatype val =
    VNil
  | VStr string
  | VInt int
  | VBool bool
  | VList "val list"
  | VObj "(string \<times> val) list"

text \<open>
  The structs of \<^verbatim>\<open>item.go\<close>. Several of them share field names; where a name is
  ambiguous it is written qualified, as in \<open>Section.Name\<close> and \<open>SectionGroup.Name\<close>.
\<close>

record Field =
  Type :: string
  Designation :: string
  Name :: string
  Value :: string

record Overview =
  Title :: string
  URL :: string
  Tags :: "string list"

record DocumentAttributes =
  FileName :: string

record SectionGroup =
  Selector :: string
  Name :: string
  Fields :: "(string \<times> string) list"

record Annotation =
  generate :: string
  guarded :: string
  multiline :: string
  clipboardFilter :: string

record SectionField =
  Type :: string
  Text :: string
  Value :: val
  N :: string
  A :: Annotation
  Inputs :: "(string \<times> string) list"

record Section =
  Name :: string
  Title :: string
  Fields :: "SectionField list"

record Details =
  Notes :: string
  Password :: string
  Fields :: "Field list"
  Sections :: "Section list"
  DocumentAttributes :: "DocumentAttributes option"

record Item =
  UUID :: string
  Template :: string
  Vault :: string
  Overview :: Overview
  Details :: Details
  Trashed :: string

definition ItemResource :: string where "ItemResource = ''item''"
definition DocumentResource :: string where "DocumentResource = ''document''"
definition Stdin :: string where "Stdin = ''-''"
definition IsTrashed :: string where "IsTrashed = ''Y''"

definition TypeSex :: string where "TypeSex = ''menu''"
definition TypeCard :: string where "TypeCard = ''cctype''"
definition TypeAddress :: string where "TypeAddress = ''address''"
definition TypeString :: string where "TypeString = ''string''"
definition TypeURL :: string where "TypeURL = ''URL''"
definition TypeEmail :: string where "TypeEmail = ''email''"
definition TypeDate :: string where "TypeDate = ''date''"
definition TypeMonthYear :: string where "TypeMonthYear = ''monthYear''"
definition TypeConcealed :: string where "TypeConcealed = ''concealed''"
definition TypePhone :: string where "TypePhone = ''phone''"
definition TypeReference :: string where "TypeReference = ''reference''"

subsection \<open>Errors, the command runner and the hosting framework\<close>

text \<open>
  The error of a finished command is either an \<^verbatim>\<open>*exec.ExitError\<close> with its exit
  code, or any other error value.
\<close>

datatype exec_error = ExitError int | OtherError string

datatype error =
    ErrorNew string
  | CommandError "string list" string exec_error
  | LibraryError string
  | SetError string
  | Panic string

text \<open>
  Modelled from the spec: \<^verbatim>\<open>prettyError\<close> is not among the sources. The spec says that a
  nonzero exit gives a structured error carrying the exit status, the raw output and the
  attempted argument vector; it is never nil.
\<close>

definition prettyError :: "string list \<Rightarrow> string \<Rightarrow> exec_error \<Rightarrow> error" where
  "prettyError args res err = CommandError args res err"

text \<open>
  Modelled from the spec: the verbs \<^verbatim>\<open>opPasswordGet\<close> and \<^verbatim>\<open>opPasswordCreate\<close> are
  not among the sources. The spec says that an argument vector begins with a verb
  \<^verbatim>\<open>get\<close>, \<^verbatim>\<open>create\<close> or \<^verbatim>\<open>delete\<close>.
\<close>

definition opPasswordGet :: string where "opPasswordGet = ''get''"
definition opPasswordCreate :: string where "opPasswordCreate = ''create''"

text \<open>
  The client. One invocation of the external tool is its argument vector and the bytes
  piped to its standard input, if any. The tool is a black box: its answer depends on the
  invocation and on everything that was run before. The client records what it ran.
\<close>

type_synonym invocation = "string list \<times> string option"

record OnePassClient =
  respond :: "invocation list \<Rightarrow> invocation \<Rightarrow> string \<times> exec_error option"
  history :: "invocation list"

text \<open>
  Modelled from the spec: \<^verbatim>\<open>RunSimpleCmd\<close> and \<^verbatim>\<open>RunStdinCmd\<close> are not among the
  sources. The spec says that the runner spawns the binary with the given argument vector,
  writes the standard-input bytes to the process when they are supplied, and returns the
  captured output together with the error of a nonzero exit.
\<close>

definition RunSimpleCmd ::
  "OnePassClient \<Rightarrow> string list \<Rightarrow> (string \<times> exec_error option) \<times> OnePassClient" where
  "RunSimpleCmd cl args =
    (respond cl (history cl) (args, None), cl\<lparr>history := history cl @ [(args, None)]\<rparr>)"

definition RunStdinCmd ::
  "OnePassClient \<Rightarrow> string \<Rightarrow> string list \<Rightarrow> (string \<times> exec_error option) \<times> OnePassClient" where
  "RunStdinCmd cl content args =
    (respond cl (history cl) (args, Some content),
     cl\<lparr>history := history cl @ [(args, Some content)]\<rparr>)"

text \<open>
  The framework's \<^verbatim>\<open>schema.ResourceData\<close>: an identifier and the attributes. \<^verbatim>\<open>Get\<close>
  always returns a value (the zero value of an unset attribute); \<^verbatim>\<open>Set\<close> validates the
  value against the schema and may refuse it, which \<open>accepts\<close> decides.
\<close>

record ResourceData =
  ident :: string
  attrs :: "string \<Rightarrow> val"
  accepts :: "string \<Rightarrow> val \<Rightarrow> bool"

definition d_Get :: "ResourceData \<Rightarrow> string \<Rightarrow> val" where
  "d_Get d key = attrs d key"

definition d_Set :: "ResourceData \<Rightarrow> string \<Rightarrow> val \<Rightarrow> error + ResourceData" where
  "d_Set d key v =
    (if accepts d key v then Inr (d\<lparr>attrs := (attrs d)(key := v)\<rparr>) else Inl (SetError key))"

definition d_SetId :: "ResourceData \<Rightarrow> string \<Rightarrow> ResourceData" where
  "d_SetId d v = d\<lparr>ident := v\<rparr>"

text \<open>
  The helpers of the provider and of the libraries that the sources call but do not
  contain. They are parameters of the model.
\<close>

record Env =
  getID :: "ResourceData \<Rightarrow> string"
  getResultID :: "string \<Rightarrow> error + string"
  ParseTags :: "ResourceData \<Rightarrow> string list"
  ParseFields :: "(string \<times> val) list \<Rightarrow> SectionField list"
  ParseSections :: "ResourceData \<Rightarrow> Section list"
  json_Unmarshal :: "string \<Rightarrow> error + Item"
  json_Marshal :: "Details \<Rightarrow> error + string"
  base64url_Encode :: "string \<Rightarrow> string"

text \<open>
  Type assertions \<^verbatim>\<open>v.(T)\<close> and the index \<^verbatim>\<open>[0]\<close> panic when they fail: \<open>None\<close>.
  Indexing a map with a missing key gives nil.
\<close>

definition assertString :: "val \<Rightarrow> string option" where
  "assertString v = (case v of VStr s \<Rightarrow> Some s | _ \<Rightarrow> None)"

definition assertInt :: "val \<Rightarrow> int option" where
  "assertInt v = (case v of VInt i \<Rightarrow> Some i | _ \<Rightarrow> None)"

definition assertMap :: "val \<Rightarrow> (string \<times> val) list option" where
  "assertMap v = (case v of VObj m \<Rightarrow> Some m | _ \<Rightarrow> None)"

definition assertSlice :: "val \<Rightarrow> val list option" where
  "assertSlice v = (case v of VList xs \<Rightarrow> Some xs | _ \<Rightarrow> None)"

definition mapIndex :: "(string \<times> val) list \<Rightarrow> string \<Rightarrow> val" where
  "mapIndex m key = (case map_of m key of None \<Rightarrow> VNil | Some v \<Rightarrow> v)"

text \<open>\<^verbatim>\<open>strings.Join\<close>.\<close>

fun Join :: "string list \<Rightarrow> string \<Rightarrow> string" where
  "Join [] sep = []"
| "Join [x] sep = x"
| "Join (x # y # ys) sep = x @ sep @ Join (y # ys) sep"

text \<open>
  \<^verbatim>\<open>base64.StdEncoding.EncodeToString\<close>: three bytes become four characters of the
  standard alphabet, and a last group of one or two bytes is padded with \<open>=\<close>.
\<close>

definition encodeStd :: string where
  "encodeStd = ''ABCDEFGHIJKLMNOPQRSTUVWXYZabcdefghijklmnopqrstuvwxyz0123456789+/''"

fun EncodeToString :: "string \<Rightarrow> string" where
  "EncodeToString [] = []"
| "EncodeToString [a] =
     (let x = (of_char a :: nat)
      in [encodeStd ! (x div 4), encodeStd ! (x mod 4 * 16), CHR ''='', CHR ''=''])"
| "EncodeToString [a, b] =
     (let x = (of_char a :: nat); y = (of_char b :: nat)
      in [encodeStd ! (x div 4), encodeStd ! (x mod 4 * 16 + y div 16),
          encodeStd ! (y mod 16 * 4), CHR ''=''])"
| "EncodeToString (a # b # c # rest) =
     (let x = (of_char a :: nat); y = (of_char b :: nat); z = (of_char c :: nat)
      in [encodeStd ! (x div 4), encodeStd ! (x mod 4 * 16 + y div 16),
          encodeStd ! (y mod 16 * 4 + z div 64), encodeStd ! (z mod 64)]
         @ EncodeToString rest)"

subsection \<open>Reading and creating items and documents\<close>

definition itemNotFound :: "string \<Rightarrow> exec_error \<Rightarrow> bool" where
  "itemNotFound res err =
    (case err of
       ExitError code \<Rightarrow>
         (code = 1 \<and> sublist ''isn't an item in'' res)
         \<or> (code = 4 \<and> sublist ''The requested resource was not found'' res)
     | OtherError _ \<Rightarrow> False)"

text \<open>The argument vectors, built as the functions below build them before they run.\<close>

definition readItemArgs :: "string \<Rightarrow> string \<Rightarrow> string list" where
  "readItemArgs itemID vaultID =
    (let args = [opPasswordGet, ItemResource, itemID]
     in if vaultID \<noteq> [] then args @ [''--vault='' @ vaultID] else args)"

definition createItemArgs :: "Item \<Rightarrow> string \<Rightarrow> string list" where
  "createItemArgs v detailsHash =
    (let args = [opPasswordCreate, ItemResource, Template2Category (Template v), detailsHash];
         args = (if Vault v \<noteq> [] then args @ [''--vault='' @ Vault v] else args);
         args = (if Overview.Title (Overview v) \<noteq> []
                 then args @ [''--title='' @ Overview.Title (Overview v)] else args);
         args = (if URL (Overview v) \<noteq> []
                 then args @ [''--url='' @ URL (Overview v)] else args)
     in if length (Tags (Overview v)) > 0
        then args @ [''--tags='' @ Join (Tags (Overview v)) '',''] else args)"

definition readDocumentArgs :: "string \<Rightarrow> string list" where
  "readDocumentArgs docID = [opPasswordGet, DocumentResource, docID]"

definition createDocumentArgs :: "Item \<Rightarrow> DocumentAttributes \<Rightarrow> string list" where
  "createDocumentArgs v da =
    (let args = [opPasswordCreate, DocumentResource, Stdin,
                 ''--title='' @ Overview.Title (Overview v),
                 ''--filename='' @ FileName da];
         args = (if length (Tags (Overview v)) > 0
                 then args @ [''--tags='' @ Join (Tags (Overview v)) '',''] else args)
     in if Vault v \<noteq> [] then args @ [''--vault='' @ Vault v] else args)"

definition ReadItem ::
  "Env \<Rightarrow> OnePassClient \<Rightarrow> string \<Rightarrow> string \<Rightarrow> (error + Item option) \<times> OnePassClient" where
  "ReadItem env cl itemID vaultID =
    (let args = readItemArgs itemID vaultID;
         (r, cl') = RunSimpleCmd cl args
     in case r of
          (res, Some err) \<Rightarrow>
            if itemNotFound res err then (Inr None, cl')
            else (Inl (prettyError args res err), cl')
        | (res, None) \<Rightarrow>
            (case json_Unmarshal env res of
               Inl err \<Rightarrow> (Inl err, cl')
             | Inr item \<Rightarrow> (Inr (Some item), cl')))"

definition CreateItem ::
  "Env \<Rightarrow> OnePassClient \<Rightarrow> Item \<Rightarrow> (error + Item) \<times> OnePassClient" where
  "CreateItem env cl v =
    (case json_Marshal env (Details v) of
       Inl err \<Rightarrow> (Inl err, cl)
     | Inr details \<Rightarrow>
         let detailsHash = base64url_Encode env details;
             template = Template2Category (Template v)
         in if template = UnknownCategory
            then (Inl (ErrorNew (''unknown template id '' @ Template v)), cl)
            else
              let args = createItemArgs v detailsHash;
                  (r, cl') = RunSimpleCmd cl args
              in case r of
                   (res, None) \<Rightarrow>
                     (case getResultID env res of
                        Inr newID \<Rightarrow> (Inr (v\<lparr>UUID := newID\<rparr>), cl')
                      | Inl _ \<Rightarrow> (Inr v, cl'))
                 | (res, Some err) \<Rightarrow> (Inl (prettyError args res err), cl'))"

definition ReadDocument ::
  "OnePassClient \<Rightarrow> string \<Rightarrow> (error + string) \<times> OnePassClient" where
  "ReadDocument cl docID =
    (let args = readDocumentArgs docID;
         (r, cl') = RunSimpleCmd cl args
     in case r of
          (content, Some err) \<Rightarrow> (Inl (prettyError args content err), cl')
        | (content, None) \<Rightarrow> (Inr content, cl'))"

definition CreateDocument ::
  "Env \<Rightarrow> OnePassClient \<Rightarrow> Item \<Rightarrow> string \<Rightarrow> (error + Item) \<times> OnePassClient" where
  "CreateDocument env cl v content =
    (case DocumentAttributes (Details v) of
       None \<Rightarrow> (Inl (Panic ''nil pointer dereference''), cl)
     | Some da \<Rightarrow>
         let args = createDocumentArgs v da;
             (r, cl') = RunStdinCmd cl content args
         in case r of
              (res, None) \<Rightarrow>
                (case getResultID env res of
                   Inr newID \<Rightarrow> (Inr (v\<lparr>UUID := newID\<rparr>), cl')
                 | Inl _ \<Rightarrow> (Inr v, cl'))
            | (res, Some err) \<Rightarrow> (Inl (prettyError args res err), cl'))"

subsection \<open>Decoding sections into configuration attributes\<close>

text \<open>The \<^verbatim>\<open>switch\<close> of \<^verbatim>\<open>ProcessField\<close> that chooses the key of a field's value.\<close>

definition fieldKey :: "SectionField \<Rightarrow> string" where
  "fieldKey field =
    (if SectionField.Type field = TypeSex then ''sex''
     else if SectionField.Type field = TypeURL then ''url''
     else if SectionField.Type field = TypeMonthYear then ''month_year''
     else if SectionField.Type field = TypeCard then ''card_type''
     else if SectionField.Type field = TypeConcealed then
       (if prefix ''TOTP_'' (N field) then ''totp'' else ''concealed'')
     else SectionField.Type field)"

definition ProcessField :: "SectionField list \<Rightarrow> (string \<times> val) list list" where
  "ProcessField srcFields =
    map (\<lambda>field.
          AList.update (fieldKey field) (SectionField.Value field)
            [(''name'', VStr (Text field))])
        srcFields"

definition ProcessSections :: "Section list \<Rightarrow> (string \<times> val) list list" where
  "ProcessSections srcSections =
    map (\<lambda>sect.
          [(''name'', VStr (Section.Title sect)),
           (''field'', VList (map VObj (ProcessField (Section.Fields sect))))])
        srcSections"

text \<open>
  The loops of \<^verbatim>\<open>parseSectionFromSchema\<close>, innermost first. The first one ranges over
  the field map of a group and carries \<open>src\<close> and \<open>found\<close>; the second one ranges over
  the fields of a section and carries \<open>src\<close> and \<open>leftFields\<close>.
\<close>

fun matchGroupFields ::
  "SectionField \<Rightarrow> (string \<times> string) list \<Rightarrow> (string \<times> val) list \<times> bool
   \<Rightarrow> (string \<times> val) list \<times> bool" where
  "matchGroupFields field [] (src, found) = (src, found)"
| "matchGroupFields field ((k, f) # rest) (src, found) =
     (if f = N field
      then matchGroupFields field rest (AList.update k (SectionField.Value field) src, True)
      else matchGroupFields field rest (src, found))"

fun partitionFields ::
  "(string \<times> string) list \<Rightarrow> SectionField list
   \<Rightarrow> (string \<times> val) list \<times> SectionField list
   \<Rightarrow> (string \<times> val) list \<times> SectionField list" where
  "partitionFields gfs [] (src, leftFields) = (src, leftFields)"
| "partitionFields gfs (field # rest) (src, leftFields) =
     (let (src', found) = matchGroupFields field gfs (src, False)
      in partitionFields gfs rest
           (src', if \<not> found then leftFields @ [field] else leftFields))"

text \<open>What a section puts under the name of a group that selects it (the body of the test).\<close>

definition groupSource :: "SectionGroup \<Rightarrow> Section \<Rightarrow> (string \<times> val) list" where
  "groupSource grp sect =
    (let (src, leftFields) =
           partitionFields (SectionGroup.Fields grp) (Section.Fields sect)
             ([(''title'', VStr (Section.Title sect))], [])
     in AList.update ''field'' (VList (map VObj (ProcessField leftFields))) src)"

text \<open>The loop over the groups carries the resource data and \<open>use\<close>.\<close>

fun groupsLoop ::
  "Section \<Rightarrow> SectionGroup list \<Rightarrow> ResourceData \<times> bool \<Rightarrow> error + ResourceData \<times> bool" where
  "groupsLoop sect [] (d, use) = Inr (d, use)"
| "groupsLoop sect (grp # rest) (d, use) =
     (if Section.Name sect = Selector grp
      then (case d_Set d (SectionGroup.Name grp) (VList [VObj (groupSource grp sect)]) of
              Inl err \<Rightarrow> Inl err
            | Inr d' \<Rightarrow> groupsLoop sect rest (d', True))
      else groupsLoop sect rest (d, use))"

text \<open>The loop over the sections carries the resource data and \<open>leftSections\<close>.\<close>

fun sectionsLoop ::
  "SectionGroup list \<Rightarrow> Section list \<Rightarrow> ResourceData \<times> Section list
   \<Rightarrow> error + ResourceData \<times> Section list" where
  "sectionsLoop groups [] (d, leftSections) = Inr (d, leftSections)"
| "sectionsLoop groups (sect # rest) (d, leftSections) =
     (case groupsLoop sect groups (d, False) of
        Inl err \<Rightarrow> Inl err
      | Inr (d', use) \<Rightarrow>
          sectionsLoop groups rest
            (d', if \<not> use then leftSections @ [sect] else leftSections))"

definition parseSectionFromSchema ::
  "Section list \<Rightarrow> ResourceData \<Rightarrow> SectionGroup list \<Rightarrow> error + ResourceData" where
  "parseSectionFromSchema sections d groups =
    (case sectionsLoop groups sections (d, []) of
       Inl err \<Rightarrow> Inl err
     | Inr (d', leftSections) \<Rightarrow>
         d_Set d' ''section'' (VList (map VObj (ProcessSections leftSections))))"

subsection \<open>The identity and document resources\<close>

text \<open>The groups that \<^verbatim>\<open>resourceItemIdentityRead\<close> passes to the decoder.\<close>

definition identityGroups :: "SectionGroup list" where
  "identityGroups =
    [\<lparr>Selector = ''name'', SectionGroup.Name = ''identification'',
      SectionGroup.Fields =
        [(''firstname'', ''firstname''), (''initial'', ''initial''),
         (''lastname'', ''lastname''), (''sex'', ''sex''), (''birth_date'', ''birthdate''),
         (''occupation'', ''occupation''), (''company'', ''company''),
         (''department'', ''department''), (''job_title'', ''jobtitle'')]\<rparr>,
     \<lparr>Selector = ''address'', SectionGroup.Name = ''address'',
      SectionGroup.Fields =
        [(''address'', ''address''), (''default_phone'', ''defphone''),
         (''home_phone'', ''homephone''), (''cell_phone'', ''cellphone''),
         (''business_phone'', ''busphone'')]\<rparr>,
     \<lparr>Selector = ''internet'', SectionGroup.Name = ''internet'',
      SectionGroup.Fields = [(''username'', ''username''), (''email'', ''email'')]\<rparr>]"

text \<open>
  A failed \<^verbatim>\<open>Set\<close> of \<^verbatim>\<open>archived\<close> is turned into a diagnostic that is dropped: the
  read goes on with the data unchanged.
\<close>

definition setArchived :: "ResourceData \<Rightarrow> Item \<Rightarrow> ResourceData" where
  "setArchived d v =
    (case d_Set d ''archived'' (VBool (Trashed v = IsTrashed)) of
       Inl err \<Rightarrow> d
     | Inr d' \<Rightarrow> d')"

definition resourceItemIdentityRead ::
  "Env \<Rightarrow> ResourceData \<Rightarrow> OnePassClient \<Rightarrow> (error + ResourceData) \<times> OnePassClient" where
  "resourceItemIdentityRead env d cl =
    (case assertString (d_Get d ''vault'') of
       None \<Rightarrow> (Inl (Panic ''interface conversion''), cl)
     | Some vaultID \<Rightarrow>
        (case ReadItem env cl (getID env d) vaultID of
           (Inl err, cl') \<Rightarrow> (Inl err, cl')
         | (Inr None, cl') \<Rightarrow> (Inr (d_SetId d []), cl')
         | (Inr (Some v), cl') \<Rightarrow>
             if Template v \<noteq> Category2Template IdentityCategory
             then (Inl (ErrorNew (''item is not from '' @ IdentityCategory)), cl')
             else
               (case d_Set (d_SetId d (UUID v)) ''name'' (VStr (Overview.Title (Overview v))) of
                  Inl err \<Rightarrow> (Inl err, cl')
                | Inr d1 \<Rightarrow>
               (case d_Set d1 ''tags'' (VList (map VStr (Tags (Overview v)))) of
                  Inl err \<Rightarrow> (Inl err, cl')
                | Inr d2 \<Rightarrow>
               (case d_Set d2 ''vault'' (VStr (Vault v)) of
                  Inl err \<Rightarrow> (Inl err, cl')
                | Inr d3 \<Rightarrow>
               (case d_Set d3 ''notes'' (VStr (Notes (Details v))) of
                  Inl err \<Rightarrow> (Inl err, cl')
                | Inr d4 \<Rightarrow>
               (case parseSectionFromSchema (Sections (Details v)) d4 identityGroups of
                  Inl err \<Rightarrow> (Inl err, cl')
                | Inr d5 \<Rightarrow> (Inr (setArchived d5 v), cl'))))))))"

definition resourceItemDocumentRead ::
  "Env \<Rightarrow> ResourceData \<Rightarrow> OnePassClient \<Rightarrow> (error + ResourceData) \<times> OnePassClient" where
  "resourceItemDocumentRead env d cl =
    (case assertString (d_Get d ''vault'') of
       None \<Rightarrow> (Inl (Panic ''interface conversion''), cl)
     | Some vaultID \<Rightarrow>
        (case ReadItem env cl (getID env d) vaultID of
           (Inl err, cl') \<Rightarrow> (Inl err, cl')
         | (Inr None, cl') \<Rightarrow> (Inr (d_SetId d []), cl')
         | (Inr (Some v), cl') \<Rightarrow>
             if Template v \<noteq> Category2Template DocumentCategory
             then (Inl (ErrorNew (''item is not from '' @ DocumentCategory)), cl')
             else
               (case d_Set (d_SetId d (UUID v)) ''name'' (VStr (Overview.Title (Overview v))) of
                  Inl err \<Rightarrow> (Inl err, cl')
                | Inr d1 \<Rightarrow>
               (case d_Set d1 ''tags'' (VList (map VStr (Tags (Overview v)))) of
                  Inl err \<Rightarrow> (Inl err, cl')
                | Inr d2 \<Rightarrow>
               (case d_Set d2 ''vault'' (VStr (Vault v)) of
                  Inl err \<Rightarrow> (Inl err, cl')
                | Inr d3 \<Rightarrow>
               (case DocumentAttributes (Details v) of
                  None \<Rightarrow> (Inl (Panic ''nil pointer dereference''), cl')
                | Some da \<Rightarrow>
               (case d_Set d3 ''filename'' (VStr (FileName da)) of
                  Inl err \<Rightarrow> (Inl err, cl')
                | Inr d4 \<Rightarrow>
               (let d5 = setArchived d4 v in
                case ReadDocument cl' (UUID v) of
                  (Inl err, cl'') \<Rightarrow> (Inl err, cl'')
                | (Inr content, cl'') \<Rightarrow>
               (case d_Set d5 ''content'' (VStr content) of
                  Inl err \<Rightarrow> (Inl err, cl'')
                | Inr d6 \<Rightarrow>
               (case d_Set d6 ''content_base64'' (VStr (EncodeToString content)) of
                  Inl err \<Rightarrow> (Inl err, cl'')
                | Inr d7 \<Rightarrow> (Inr d7, cl'')))))))))))"

text \<open>
  \<^verbatim>\<open>d.Get(key).([]interface{})[0].(map[string]interface{})\<close>: the first entry of a
  nested group of the configuration. The two type assertions panic on a value of another
  type, and the index panics on a group without an entry: the value that the framework
  gives for a group that the configuration leaves out is the empty list.
\<close>

definition groupConfig :: "ResourceData \<Rightarrow> string \<Rightarrow> error + (string \<times> val) list" where
  "groupConfig d key =
    (case assertSlice (d_Get d key) of
       None \<Rightarrow> Inl (Panic ''interface conversion'')
     | Some [] \<Rightarrow> Inl (Panic ''index out of range'')
     | Some (entry # _) \<Rightarrow>
         (case assertMap entry of
            None \<Rightarrow> Inl (Panic ''interface conversion'')
          | Some m \<Rightarrow> Inr m))"

definition guardedYes :: Annotation where
  "guardedYes = \<lparr>generate = [], guarded = ''yes'', multiline = [], clipboardFilter = []\<rparr>"

text \<open>
  The sections that \<^verbatim>\<open>resourceItemIdentityCreate\<close> builds from the three groups: the
  well-known fields of each group in their fixed order, then the freeform fields of the
  group, and after the three sections the generic ones.
\<close>

definition identitySections ::
  "Env \<Rightarrow> ResourceData \<Rightarrow> (string \<times> val) list \<Rightarrow> (string \<times> val) list
   \<Rightarrow> (string \<times> val) list \<Rightarrow> Section list option" where
  "identitySections env d main address internet =
    do {
      mainTitle \<leftarrow> assertString (mapIndex main ''title'');
      firstname \<leftarrow> assertString (mapIndex main ''firstname'');
      initial \<leftarrow> assertString (mapIndex main ''initial'');
      lastname \<leftarrow> assertString (mapIndex main ''lastname'');
      sex \<leftarrow> assertString (mapIndex main ''sex'');
      birthDate \<leftarrow> assertInt (mapIndex main ''birth_date'');
      occupation \<leftarrow> assertString (mapIndex main ''occupation'');
      company \<leftarrow> assertString (mapIndex main ''company'');
      department \<leftarrow> assertString (mapIndex main ''department'');
      jobTitle \<leftarrow> assertString (mapIndex main ''job_title'');
      addressTitle \<leftarrow> assertString (mapIndex address ''title'');
      addressMap \<leftarrow> assertMap (mapIndex address ''address'');
      defaultPhone \<leftarrow> assertString (mapIndex address ''default_phone'');
      homePhone \<leftarrow> assertString (mapIndex address ''home_phone'');
      cellPhone \<leftarrow> assertString (mapIndex address ''cell_phone'');
      businessPhone \<leftarrow> assertString (mapIndex address ''business_phone'');
      internetTitle \<leftarrow> assertString (mapIndex internet ''title'');
      username \<leftarrow> assertString (mapIndex internet ''username'');
      email \<leftarrow> assertString (mapIndex internet ''email'');
      Some
       ([\<lparr>Section.Name = ''name'', Section.Title = mainTitle,
          Section.Fields =
            [\<lparr>SectionField.Type = ''string'', Text = ''firstname'',
              SectionField.Value = VStr firstname, N = ''firstname'', A = guardedYes,
              Inputs = [(''autocapitalization'', ''Words'')]\<rparr>,
             \<lparr>SectionField.Type = ''string'', Text = ''initial'',
              SectionField.Value = VStr initial, N = ''initial'', A = guardedYes,
              Inputs = [(''autocapitalization'', ''Words'')]\<rparr>,
             \<lparr>SectionField.Type = ''string'', Text = ''lastname'',
              SectionField.Value = VStr lastname, N = ''lastname'', A = guardedYes,
              Inputs = [(''autocapitalization'', ''Words'')]\<rparr>,
             \<lparr>SectionField.Type = ''menu'', Text = ''sex'',
              SectionField.Value = VStr sex, N = ''sex'', A = guardedYes, Inputs = []\<rparr>,
             \<lparr>SectionField.Type = ''date'', Text = ''birth date'',
              SectionField.Value = VInt birthDate, N = ''birthdate'', A = guardedYes,
              Inputs = []\<rparr>,
             \<lparr>SectionField.Type = ''string'', Text = ''occupation'',
              SectionField.Value = VStr occupation, N = ''occupation'', A = guardedYes,
              Inputs = [(''autocapitalization'', ''Words'')]\<rparr>,
             \<lparr>SectionField.Type = ''string'', Text = ''company'',
              SectionField.Value = VStr company, N = ''company'', A = guardedYes,
              Inputs = [(''autocapitalization'', ''Words'')]\<rparr>,
             \<lparr>SectionField.Type = ''string'', Text = ''department'',
              SectionField.Value = VStr department, N = ''department'', A = guardedYes,
              Inputs = [(''autocapitalization'', ''Words'')]\<rparr>,
             \<lparr>SectionField.Type = ''string'', Text = ''job title'',
              SectionField.Value = VStr jobTitle, N = ''jobtitle'', A = guardedYes,
              Inputs = [(''autocapitalization'', ''Words'')]\<rparr>]
            @ ParseFields env main\<rparr>,
         \<lparr>Section.Name = ''address'', Section.Title = addressTitle,
          Section.Fields =
            [\<lparr>SectionField.Type = ''address'', Text = ''address'',
              SectionField.Value = VObj addressMap, N = ''address'', A = guardedYes,
              Inputs = [(''autocapitalization'', ''Sentences'')]\<rparr>,
             \<lparr>SectionField.Type = ''phone'', Text = ''default phone'',
              SectionField.Value = VStr defaultPhone, N = ''defphone'', A = guardedYes,
              Inputs = []\<rparr>,
             \<lparr>SectionField.Type = ''phone'', Text = ''home'',
              SectionField.Value = VStr homePhone, N = ''homephone'', A = guardedYes,
              Inputs = []\<rparr>,
             \<lparr>SectionField.Type = ''phone'', Text = ''cell'',
              SectionField.Value = VStr cellPhone, N = ''cellphone'', A = guardedYes,
              Inputs = []\<rparr>,
             \<lparr>SectionField.Type = ''phone'', Text = ''business'',
              SectionField.Value = VStr businessPhone, N = ''busphone'', A = guardedYes,
              Inputs = []\<rparr>]
            @ ParseFields env address\<rparr>,
         \<lparr>Section.Name = ''internet'', Section.Title = internetTitle,
          Section.Fields =
            [\<lparr>SectionField.Type = ''string'', Text = ''username'',
              SectionField.Value = VStr username, N = ''username'', A = guardedYes,
              Inputs = [(''autocapitalization'', ''Sentences'')]\<rparr>,
             \<lparr>SectionField.Type = ''string'', Text = ''email'',
              SectionField.Value = VStr email, N = ''email'', A = guardedYes,
              Inputs = [(''keyboard'', ''EmailAddress'')]\<rparr>]
            @ ParseFields env internet\<rparr>]
        @ ParseSections env d)
    }"

text \<open>
  The item literal of \<^verbatim>\<open>resourceItemIdentityCreate\<close>, its fields in the order of the
  source: the vault, the notes and the sections, then the title.
\<close>

definition itemLiteral ::
  "Env \<Rightarrow> ResourceData \<Rightarrow> (string \<times> val) list \<Rightarrow> (string \<times> val) list
   \<Rightarrow> (string \<times> val) list \<Rightarrow> Item option" where
  "itemLiteral env d main address internet =
    do {
      vault \<leftarrow> assertString (d_Get d ''vault'');
      notes \<leftarrow> assertString (d_Get d ''notes'');
      sections \<leftarrow> identitySections env d main address internet;
      name \<leftarrow> assertString (d_Get d ''name'');
      Some \<lparr>UUID = [], Template = Category2Template IdentityCategory, Vault = vault,
            Overview = \<lparr>Overview.Title = name, URL = [], Tags = ParseTags env d\<rparr>,
            Details = \<lparr>Notes = notes, Password = [], Details.Fields = [],
                       Sections = sections, DocumentAttributes = None\<rparr>,
            Trashed = []\<rparr>
    }"

text \<open>
  The item that \<^verbatim>\<open>resourceItemIdentityCreate\<close> hands to \<^verbatim>\<open>CreateItem\<close>, or the
  panic that ends the function before: the three groups are read first and in this order,
  none of them behind a test that the group is there; every assertion of the item literal
  is a type assertion.
\<close>

definition identityItem :: "Env \<Rightarrow> ResourceData \<Rightarrow> error + Item" where
  "identityItem env d =
    (case groupConfig d ''identification'' of
       Inl err \<Rightarrow> Inl err
     | Inr main \<Rightarrow>
    (case groupConfig d ''address'' of
       Inl err \<Rightarrow> Inl err
     | Inr address \<Rightarrow>
    (case groupConfig d ''internet'' of
       Inl err \<Rightarrow> Inl err
     | Inr internet \<Rightarrow>
    (case itemLiteral env d main address internet of
       None \<Rightarrow> Inl (Panic ''interface conversion'')
     | Some item \<Rightarrow> Inr item))))"

definition resourceItemIdentityCreate ::
  "Env \<Rightarrow> ResourceData \<Rightarrow> OnePassClient \<Rightarrow> (error + ResourceData) \<times> OnePassClient" where
  "resourceItemIdentityCreate env d cl =
    (case identityItem env d of
       Inl err \<Rightarrow> (Inl err, cl)
     | Inr item \<Rightarrow>
         (case CreateItem env cl item of
            (Inl err, cl') \<Rightarrow> (Inl err, cl')
          | (Inr item', cl') \<Rightarrow> resourceItemIdentityRead env (d_SetId d (UUID item')) cl'))"

subsection \<open>The decoder, described by what it writes\<close>

text \<open>
  The sequence of attribute writes that the decoder performs, section by section and,
  within a section, group by group: every group whose selector equals the name of the
  section receives the attributes of that section; at the end the sections that no group
  selects are written to \<open>section\<close>.
\<close>

definition selects :: "SectionGroup list \<Rightarrow> Section \<Rightarrow> bool" where
  "selects groups sect = (Section.Name sect \<in> set (map Selector groups))"

definition decodeWrites :: "Section list \<Rightarrow> SectionGroup list \<Rightarrow> (string \<times> val) list" where
  "decodeWrites sections groups =
    concat (map (\<lambda>sect.
                  map (\<lambda>grp. (SectionGroup.Name grp, VList [VObj (groupSource grp sect)]))
                      (filter (\<lambda>grp. Section.Name sect = Selector grp) groups))
                sections)
    @ [(''section'',
        VList (map VObj (ProcessSections (filter (\<lambda>sect. \<not> selects groups sect) sections))))]"

definition writeAttr :: "string \<times> val \<Rightarrow> ResourceData \<Rightarrow> ResourceData" where
  "writeAttr w d = d\<lparr>attrs := (attrs d)(fst w := snd w)\<rparr>"

subsection \<open>Example inputs\<close>

text \<open>
  A client whose tool always prints \<open>out\<close> and ends with \<open>err\<close>; helpers that decode every
  output to \<open>item\<close>, read the new identifier off the whole output, and take the freeform
  fields of a group from \<open>freeform\<close>; resource data that accepts every write.
\<close>

definition cannedClient :: "string \<Rightarrow> exec_error option \<Rightarrow> OnePassClient" where
  "cannedClient out err = \<lparr>respond = (\<lambda>h i. (out, err)), history = []\<rparr>"

definition exampleEnv :: "Item \<Rightarrow> ((string \<times> val) list \<Rightarrow> SectionField list) \<Rightarrow> Env" where
  "exampleEnv item freeform =
    \<lparr>getID = ident,
     getResultID = (\<lambda>res. if res = [] then Inl (LibraryError ''no uuid'') else Inr res),
     ParseTags = (\<lambda>d. []),
     ParseFields = freeform,
     ParseSections = (\<lambda>d. []),
     json_Unmarshal = (\<lambda>res. Inr item),
     json_Marshal = (\<lambda>details. Inr ''{}''),
     base64url_Encode = (\<lambda>bytes. bytes)\<rparr>"

definition exampleItem :: "string \<Rightarrow> DocumentAttributes option \<Rightarrow> Item" where
  "exampleItem template da =
    \<lparr>UUID = ''u1'', Template = template, Vault = ''v1'',
     Overview = \<lparr>Overview.Title = ''t1'', URL = [], Tags = []\<rparr>,
     Details = \<lparr>Notes = [], Password = [], Details.Fields = [], Sections = [],
                DocumentAttributes = da\<rparr>,
     Trashed = []\<rparr>"

definition exampleData :: "(string \<Rightarrow> val) \<Rightarrow> ResourceData" where
  "exampleData values = \<lparr>ident = ''u1'', attrs = values, accepts = (\<lambda>key v. True)\<rparr>"

definition noFreeform :: "(string \<times> val) list \<Rightarrow> SectionField list" where
  "noFreeform m = []"

definition exampleField :: "string \<Rightarrow> string \<Rightarrow> string \<Rightarrow> val \<Rightarrow> SectionField" where
  "exampleField kind key text v =
    \<lparr>SectionField.Type = kind, Text = text, SectionField.Value = v, N = key,
     A = \<lparr>generate = [], guarded = [], multiline = [], clipboardFilter = []\<rparr>, Inputs = []\<rparr>"

text \<open>
  A group with one well-known field and two sections, one that the group selects and one
  that it does not; and two configurations of an identity whose identification group has
  the first name Ada, the last name Lovelace, the sex female and one freeform field of
  kind \<open>string\<close>: \<open>adaConfig\<close> declares the address and the internet group as well,
  \<open>adaOnlyConfig\<close> leaves both out, so that the framework gives the empty list for them.
  The freeform fields of a group are read off its \<open>field\<close> entries by \<open>exampleFreeform\<close>:
  an entry \<open>{name: t, string: v}\<close> becomes the field of kind \<open>string\<close> with the display
  name and the field-name key \<open>t\<close> and the value \<open>v\<close>.
\<close>

definition noValues :: "string \<Rightarrow> val" where
  "noValues key = VNil"

definition exampleGroup :: SectionGroup where
  "exampleGroup =
    \<lparr>Selector = ''login'', SectionGroup.Name = ''account'',
     SectionGroup.Fields = [(''user'', ''username'')]\<rparr>"

definition loginSection :: Section where
  "loginSection =
    \<lparr>Section.Name = ''login'', Section.Title = ''Login'',
     Section.Fields =
       [exampleField ''string'' ''username'' ''user name'' (VStr ''ada''),
        exampleField ''concealed'' ''TOTP_1'' ''one-time'' (VStr ''123'')]\<rparr>"

definition miscSection :: Section where
  "miscSection =
    \<lparr>Section.Name = ''misc'', Section.Title = ''Misc'',
     Section.Fields = [exampleField ''concealed'' ''note'' ''note'' (VStr ''n'')]\<rparr>"


definition adaIdentification :: "(string \<times> val) list" where
  "adaIdentification =
    [(''title'', VStr ''Identification''), (''firstname'', VStr ''Ada''),
     (''initial'', VStr []), (''lastname'', VStr ''Lovelace''), (''sex'', VStr ''female''),
     (''birth_date'', VInt 0), (''occupation'', VStr []), (''company'', VStr []),
     (''department'', VStr []), (''job_title'', VStr []),
     (''field'', VList [VObj [(''name'', VStr ''nickname''), (''string'', VStr ''Countess'')]])]"

definition adaAddress :: "(string \<times> val) list" where
  "adaAddress =
    [(''title'', VStr ''Address''), (''address'', VObj []), (''default_phone'', VStr []),
     (''home_phone'', VStr []), (''cell_phone'', VStr []), (''business_phone'', VStr []),
     (''field'', VList [])]"

definition adaInternet :: "(string \<times> val) list" where
  "adaInternet =
    [(''title'', VStr ''Internet Details''), (''username'', VStr []), (''email'', VStr []),
     (''field'', VList [])]"

definition adaConfig :: "string \<Rightarrow> val" where
  "adaConfig key =
    (if key = ''identification'' then VList [VObj adaIdentification]
     else if key = ''address'' then VList [VObj adaAddress]
     else if key = ''internet'' then VList [VObj adaInternet]
     else VStr [])"

definition adaOnlyConfig :: "string \<Rightarrow> val" where
  "adaOnlyConfig key =
    (if key = ''identification'' then VList [VObj adaIdentification]
     else if key = ''address'' then VList []
     else if key = ''internet'' then VList []
     else VStr [])"

definition entryField :: "val \<Rightarrow> SectionField list" where
  "entryField entry =
    (case entry of
       VObj m \<Rightarrow>
         (case mapIndex m ''name'' of
            VStr t \<Rightarrow>
              (case map_of m ''string'' of
                 Some v \<Rightarrow> [exampleField ''string'' t t v]
               | None \<Rightarrow> [])
          | _ \<Rightarrow> [])
     | _ \<Rightarrow> [])"

definition exampleFreeform :: "(string \<times> val) list \<Rightarrow> SectionField list" where
  "exampleFreeform m =
    (case mapIndex m ''field'' of
       VList entries \<Rightarrow> concat (map entryField entries)
     | _ \<Rightarrow> [])"

section \<open>Properties\<close>

subsection \<open>The registry\<close>

lemmas Category_defs =
  LoginCategory_def IdentityCategory_def DatabaseCategory_def MembershipCategory_def
  WirelessRouterCategory_def SecureNoteCategory_def SoftwareLicenseCategory_def
  CreditCardCategory_def DriverLicenseCategory_def OutdoorLicenseCategory_def
  PassportCategory_def EmailAccountCategory_def PasswordCategory_def
  RewardProgramCategory_def SocialSecurityNumberCategory_def BankAccountCategory_def
  DocumentCategory_def ServerCategory_def UnknownCategory_def

lemma Category2Template_registry: "map Category2Template registry = templates"
  by (simp add: registry_def templates_def Category2Template_def Category_defs)

lemma Template2Category_templates: "map Template2Category templates = registry"
  by (simp add: registry_def templates_def Template2Category_def)

text \<open>
  Claim C5. For every category \<open>c\<close> of the registry, mapping it to its template identifier
  and back gives \<open>c\<close> again: \<open>Template2Category (Category2Template c) = c\<close>.
\<close>

theorem registry_round_trip:
  "c \<in> set registry \<Longrightarrow> Template2Category (Category2Template c) = c"
proof -
  assume "c \<in> set registry"
  then obtain i where i: "i < length registry" and c: "c = registry ! i"
    by (auto simp: in_set_conv_nth)
  have len: "length templates = length registry"
    by (simp add: registry_def templates_def)
  have "Category2Template c = templates ! i"
    using i c nth_map [of i registry Category2Template]
    by (simp add: Category2Template_registry)
  moreover have "Template2Category (templates ! i) = registry ! i"
    using i len nth_map [of i templates Template2Category]
    by (simp add: Template2Category_templates)
  ultimately show ?thesis using c by simp
qed

theorem registry_round_trip_witness:
  "IdentityCategory \<in> set registry
   \<and> Template2Category (Category2Template IdentityCategory) = IdentityCategory"
proof -
  have h: "IdentityCategory \<in> set registry" by (simp add: registry_def)
  show ?thesis using h registry_round_trip [OF h] by simp
qed

text \<open>
  Claim C8. Both lookups are total functions into plain strings, with no error value in
  their result type. A template identifier outside the table (such as \<open>''999''\<close>) yields
  \<open>UnknownCategory\<close>, and a category outside the table yields \<open>''000''\<close>.
\<close>

theorem registry_sentinels:
  "(t \<notin> set templates \<longrightarrow> Template2Category t = UnknownCategory)
   \<and> (c \<notin> set registry \<longrightarrow> Category2Template c = ''000'')
   \<and> Template2Category ''999'' = UnknownCategory"
  by (simp add: templates_def registry_def Template2Category_def Category2Template_def)

theorem registry_sentinels_witness:
  "''999'' \<notin> set templates \<and> Template2Category ''999'' = UnknownCategory
   \<and> ''Gadget'' \<notin> set registry \<and> Category2Template ''Gadget'' = ''000''"
proof -
  have t: "''999'' \<notin> set templates" by (simp add: templates_def)
  have c: "''Gadget'' \<notin> set registry" by (simp add: registry_def Category_defs)
  show ?thesis using t c registry_sentinels [of "''999''" "''Gadget''"] by simp
qed

subsection \<open>Reading an item\<close>

lemma ReadItem_failed:
  "respond cl (history cl) (readItemArgs itemID vaultID, None) = (res, Some err) \<Longrightarrow>
   fst (ReadItem env cl itemID vaultID) =
     (if itemNotFound res err then Inr None
      else Inl (prettyError (readItemArgs itemID vaultID) res err))"
  by (simp add: ReadItem_def RunSimpleCmd_def Let_def)

lemma sub1: "sublist ''isn't an item in'' ''\"abc\" isn't an item in any vault''"
  by code_simp

lemma sub3: "\<not> sublist ''The requested resource was not found'' ''resource was not found''"
  by code_simp

text \<open>
  Claim C4, as amended. When the command of \<^verbatim>\<open>ReadItem\<close> fails, the result is the empty
  result with no error exactly when the error is an exit error and either the exit code is
  1 and the output contains \<open>isn't an item in\<close>, or the exit code is 4 and the output
  contains \<open>The requested resource was not found\<close>; in every other case the result is the
  hard error built from the argument vector, the output and the error of the command.
\<close>

theorem ReadItem_soft_miss:
  assumes "respond cl (history cl) (readItemArgs itemID vaultID, None) = (res, Some err)"
  shows "fst (ReadItem env cl itemID vaultID) =
           (if (\<exists>code. err = ExitError code
                  \<and> (code = 1 \<and> sublist ''isn't an item in'' res
                     \<or> code = 4 \<and> sublist ''The requested resource was not found'' res))
            then Inr None
            else Inl (CommandError (readItemArgs itemID vaultID) res err))"
proof -
  have "itemNotFound res err \<longleftrightarrow>
          (\<exists>code. err = ExitError code
              \<and> (code = 1 \<and> sublist ''isn't an item in'' res
                 \<or> code = 4 \<and> sublist ''The requested resource was not found'' res))"
    by (cases err) (simp_all add: itemNotFound_def)
  then show ?thesis
    using ReadItem_failed [OF assms, of env] by (simp add: prettyError_def)
qed

theorem ReadItem_soft_miss_witness:
  "respond (cannedClient ''\"abc\" isn't an item in any vault'' (Some (ExitError 1)))
      (history (cannedClient ''\"abc\" isn't an item in any vault'' (Some (ExitError 1))))
      (readItemArgs ''abc'' [], None)
     = (''\"abc\" isn't an item in any vault'', Some (ExitError 1))
   \<and> fst (ReadItem (exampleEnv (exampleItem ''004'' None) noFreeform)
            (cannedClient ''\"abc\" isn't an item in any vault'' (Some (ExitError 1))) ''abc'' [])
     = Inr None"
proof -
  let ?cl = "cannedClient ''\"abc\" isn't an item in any vault'' (Some (ExitError 1))"
  have h: "respond ?cl (history ?cl) (readItemArgs ''abc'' [], None)
             = (''\"abc\" isn't an item in any vault'', Some (ExitError 1))"
    by (simp add: cannedClient_def)
  show ?thesis
    using h ReadItem_soft_miss [OF h, of "exampleEnv (exampleItem ''004'' None) noFreeform"] sub1
    by simp
qed

text \<open>
  The claim C4 as the spec states it asks only for the phrase \<open>resource was not found\<close>
  with exit code 4. An output that is just that phrase contains it, yet the read ends in
  the hard error.
\<close>

theorem ReadItem_soft_miss_counterexample:
  "sublist ''resource was not found'' ''resource was not found''
   \<and> fst (ReadItem (exampleEnv (exampleItem ''004'' None) noFreeform)
            (cannedClient ''resource was not found'' (Some (ExitError 4))) ''abc'' [])
     = Inl (CommandError [''get'', ''item'', ''abc''] ''resource was not found'' (ExitError 4))"
proof -
  have "itemNotFound ''resource was not found'' (ExitError 4) = False"
    using sub3 by (simp add: itemNotFound_def)
  then show ?thesis
    by (simp add: ReadItem_def RunSimpleCmd_def cannedClient_def readItemArgs_def
        prettyError_def opPasswordGet_def ItemResource_def Let_def)
qed

subsection \<open>The typed reads\<close>

lemma assertString_VStr: "assertString (VStr s) = Some s"
  by (simp add: assertString_def)

lemma ReadDocument_cases:
  "(\<exists>args res err. fst (ReadDocument cl docID) = Inl (CommandError args res err))
   \<or> (\<exists>content. fst (ReadDocument cl docID) = Inr content)"
  by (auto simp: ReadDocument_def RunSimpleCmd_def Let_def prettyError_def
      split: prod.splits option.splits)

lemma example_read:
  "fst (ReadItem (exampleEnv item ff) (cannedClient out None) itemID vaultID) = Inr (Some item)"
  by (simp add: ReadItem_def RunSimpleCmd_def cannedClient_def exampleEnv_def Let_def)

lemma example_read_document:
  "fst (ReadDocument (snd (ReadItem (exampleEnv item ff) (cannedClient out None) itemID vaultID))
         docID) = Inr out"
  by (simp add: ReadItem_def ReadDocument_def RunSimpleCmd_def cannedClient_def exampleEnv_def
      Let_def)

lemma example_vault: "d_Get (exampleData (\<lambda>key. VStr [])) ''vault'' = VStr []"
  by (simp add: d_Get_def exampleData_def)

lemma example_accepts: "\<forall>key x. accepts (exampleData values) key x"
  by (simp add: exampleData_def)

lemma b64_Man: "EncodeToString ''Man'' = ''TWFu''"
  by (simp add: encodeStd_def)

text \<open>The encoder on the test vectors of RFC 4648.\<close>

lemma EncodeToString_vectors:
  "EncodeToString [] = []"
  "EncodeToString ''f'' = ''Zg==''"
  "EncodeToString ''fo'' = ''Zm8=''"
  "EncodeToString ''foo'' = ''Zm9v''"
  "EncodeToString ''foob'' = ''Zm9vYg==''"
  "EncodeToString ''fooba'' = ''Zm9vYmE=''"
  "EncodeToString ''foobar'' = ''Zm9vYmFy''"
  by (simp_all add: encodeStd_def)

text \<open>
  Claim C6. When a typed read has fetched an item whose template identifier is not the
  template of the category of the resource (Identity for the identity resource, Document
  for the document resource), the read returns the hard error \<open>item is not from ...\<close>; the
  soft miss, by contrast, returns the resource data with an empty identifier and no error.
\<close>

theorem wrong_category_read_fails:
  assumes "d_Get d ''vault'' = VStr vaultID"
    and "fst (ReadItem env cl (getID env d) vaultID) = Inr (Some v)"
  shows "(Template v \<noteq> Category2Template IdentityCategory \<longrightarrow>
            fst (resourceItemIdentityRead env d cl) = Inl (ErrorNew ''item is not from Identity''))
       \<and> (Template v \<noteq> Category2Template DocumentCategory \<longrightarrow>
            fst (resourceItemDocumentRead env d cl) = Inl (ErrorNew ''item is not from Document''))"
proof -
  obtain cl' where r: "ReadItem env cl (getID env d) vaultID = (Inr (Some v), cl')"
    using assms(2) by (cases "ReadItem env cl (getID env d) vaultID") simp
  show ?thesis
    using assms(1) r
    by (simp add: resourceItemIdentityRead_def resourceItemDocumentRead_def assertString_VStr
        IdentityCategory_def DocumentCategory_def)
qed

theorem wrong_category_read_fails_witness:
  "d_Get (exampleData (\<lambda>key. VStr [])) ''vault'' = VStr []
   \<and> fst (ReadItem (exampleEnv (exampleItem ''001'' None) noFreeform) (cannedClient ''{}'' None)
            (getID (exampleEnv (exampleItem ''001'' None) noFreeform)
               (exampleData (\<lambda>key. VStr []))) [])
       = Inr (Some (exampleItem ''001'' None))
   \<and> Template (exampleItem ''001'' None) \<noteq> Category2Template IdentityCategory
   \<and> fst (resourceItemIdentityRead (exampleEnv (exampleItem ''001'' None) noFreeform)
            (exampleData (\<lambda>key. VStr [])) (cannedClient ''{}'' None))
       = Inl (ErrorNew ''item is not from Identity'')
   \<and> Template (exampleItem ''001'' None) \<noteq> Category2Template DocumentCategory
   \<and> fst (resourceItemDocumentRead (exampleEnv (exampleItem ''001'' None) noFreeform)
            (exampleData (\<lambda>key. VStr [])) (cannedClient ''{}'' None))
       = Inl (ErrorNew ''item is not from Document'')"
proof -
  have t1: "Template (exampleItem ''001'' None) \<noteq> Category2Template IdentityCategory"
    by (simp add: exampleItem_def Category2Template_def Category_defs)
  have t2: "Template (exampleItem ''001'' None) \<noteq> Category2Template DocumentCategory"
    by (simp add: exampleItem_def Category2Template_def Category_defs)
  show ?thesis
    using wrong_category_read_fails [OF example_vault example_read] example_vault example_read
      t1 t2
    by blast
qed

text \<open>
  Claim C10. For a fetched item that carries the Document template, the document read
  ends in a nil-pointer dereference only if the item has no document attributes; and when
  the framework accepts the writes that come before, it does end in the dereference for
  every such item. So the read is free of the dereference exactly under the precondition
  that the fetched item includes its document attributes.
\<close>

theorem document_read_nil_dereference:
  assumes "d_Get d ''vault'' = VStr vaultID"
    and "fst (ReadItem env cl (getID env d) vaultID) = Inr (Some v)"
    and "Template v = Category2Template DocumentCategory"
  shows "(fst (resourceItemDocumentRead env d cl) = Inl (Panic ''nil pointer dereference'')
           \<longrightarrow> DocumentAttributes (Details v) = None)
       \<and> ((\<forall>key x. accepts d key x) \<and> DocumentAttributes (Details v) = None
           \<longrightarrow> fst (resourceItemDocumentRead env d cl) = Inl (Panic ''nil pointer dereference''))"
proof -
  obtain cl' where r: "ReadItem env cl (getID env d) vaultID = (Inr (Some v), cl')"
    using assms(2) by (cases "ReadItem env cl (getID env d) vaultID") simp
  have bwd: "fst (resourceItemDocumentRead env d cl) = Inl (Panic ''nil pointer dereference'')"
    if "\<forall>key x. accepts d key x" "DocumentAttributes (Details v) = None"
    using assms(1,3) r that
    by (simp add: resourceItemDocumentRead_def assertString_VStr d_Set_def d_SetId_def)
  have fwd: "fst (resourceItemDocumentRead env d cl) \<noteq> Inl (Panic ''nil pointer dereference'')"
    if da: "DocumentAttributes (Details v) = Some da" for da
  proof -
    from ReadDocument_cases [of cl' "UUID v"]
    obtain x cl'' where rd: "ReadDocument cl' (UUID v) = (x, cl'')"
      and x: "(\<exists>args res err. x = Inl (CommandError args res err)) \<or> (\<exists>content. x = Inr content)"
      by (cases "ReadDocument cl' (UUID v)") auto
    from x show ?thesis
      using assms(1,3) r da rd
      by (auto simp: resourceItemDocumentRead_def assertString_VStr d_Set_def d_SetId_def
          setArchived_def Let_def split: if_splits)
  qed
  show ?thesis using bwd fwd by (cases "DocumentAttributes (Details v)") auto
qed

theorem document_read_nil_dereference_witness:
  "d_Get (exampleData (\<lambda>key. VStr [])) ''vault'' = VStr []
   \<and> fst (ReadItem (exampleEnv (exampleItem ''006'' None) noFreeform) (cannedClient ''{}'' None)
            (getID (exampleEnv (exampleItem ''006'' None) noFreeform)
               (exampleData (\<lambda>key. VStr []))) [])
       = Inr (Some (exampleItem ''006'' None))
   \<and> Template (exampleItem ''006'' None) = Category2Template DocumentCategory
   \<and> (\<forall>key x. accepts (exampleData (\<lambda>key. VStr [])) key x)
   \<and> DocumentAttributes (Details (exampleItem ''006'' None)) = None
   \<and> fst (resourceItemDocumentRead (exampleEnv (exampleItem ''006'' None) noFreeform)
            (exampleData (\<lambda>key. VStr [])) (cannedClient ''{}'' None))
       = Inl (Panic ''nil pointer dereference'')"
proof -
  have t: "Template (exampleItem ''006'' None) = Category2Template DocumentCategory"
    by (simp add: exampleItem_def Category2Template_def Category_defs)
  have n: "DocumentAttributes (Details (exampleItem ''006'' None)) = None"
    by (simp add: exampleItem_def)
  show ?thesis
    using document_read_nil_dereference [OF example_vault example_read t] example_vault
      example_read t n example_accepts
    by blast
qed

text \<open>
  Claim C7. When the document read reaches \<^verbatim>\<open>ReadDocument\<close> and that returns the bytes
  \<open>B\<close>, the read succeeds (the framework accepting the writes) with \<open>content\<close> set to \<open>B\<close>
  as a string and \<open>content_base64\<close> set to the standard base64 encoding of \<open>B\<close>. On
  create, the one invocation that \<^verbatim>\<open>CreateDocument\<close> adds to the history has \<open>B\<close> itself
  as standard input, and its argument vector begins \<open>create document -\<close>.
\<close>

theorem document_content:
  assumes "d_Get d ''vault'' = VStr vaultID"
    and "fst (ReadItem env cl (getID env d) vaultID) = Inr (Some v)"
    and "Template v = Category2Template DocumentCategory"
    and "DocumentAttributes (Details v) = Some da"
    and "\<forall>key x. accepts d key x"
    and "fst (ReadDocument (snd (ReadItem env cl (getID env d) vaultID)) (UUID v)) = Inr B"
  shows "(\<exists>d'. fst (resourceItemDocumentRead env d cl) = Inr d'
              \<and> d_Get d' ''content'' = VStr B
              \<and> d_Get d' ''content_base64'' = VStr (EncodeToString B))
       \<and> (DocumentAttributes (Details w) = Some wa \<longrightarrow>
            history (snd (CreateDocument env cl w B))
              = history cl @ [(createDocumentArgs w wa, Some B)]
            \<and> take 3 (createDocumentArgs w wa) = [''create'', ''document'', ''-''])"
proof -
  obtain cl' where r: "ReadItem env cl (getID env d) vaultID = (Inr (Some v), cl')"
    using assms(2) by (cases "ReadItem env cl (getID env d) vaultID") simp
  obtain cl'' where rd: "ReadDocument cl' (UUID v) = (Inr B, cl'')"
    using assms(6) r by (cases "ReadDocument cl' (UUID v)") simp
  have read: "\<exists>d'. fst (resourceItemDocumentRead env d cl) = Inr d'
              \<and> d_Get d' ''content'' = VStr B
              \<and> d_Get d' ''content_base64'' = VStr (EncodeToString B)"
    using assms(1,3,4,5) r rd
    by (simp add: resourceItemDocumentRead_def assertString_VStr d_Set_def d_SetId_def
        setArchived_def Let_def d_Get_def)
  have hist: "history (snd (CreateDocument env cl w B))
              = history cl @ [(createDocumentArgs w wa, Some B)]"
    if "DocumentAttributes (Details w) = Some wa"
    using that
    by (simp add: CreateDocument_def RunStdinCmd_def Let_def split: prod.splits option.splits sum.splits)
  have args: "take 3 (createDocumentArgs w wa) = [''create'', ''document'', ''-'']"
    by (simp add: createDocumentArgs_def Let_def opPasswordCreate_def DocumentResource_def Stdin_def)
  show ?thesis using read hist args by blast
qed

theorem document_content_witness:
  "d_Get (exampleData (\<lambda>key. VStr [])) ''vault'' = VStr []
   \<and> Template (exampleItem ''006'' (Some \<lparr>FileName = ''f.txt''\<rparr>))
       = Category2Template DocumentCategory
   \<and> (\<forall>key x. accepts (exampleData (\<lambda>key. VStr [])) key x)
   \<and> (\<exists>d'. fst (resourceItemDocumentRead
                 (exampleEnv (exampleItem ''006'' (Some \<lparr>FileName = ''f.txt''\<rparr>)) noFreeform)
                 (exampleData (\<lambda>key. VStr [])) (cannedClient ''Man'' None)) = Inr d'
          \<and> d_Get d' ''content'' = VStr ''Man''
          \<and> d_Get d' ''content_base64'' = VStr ''TWFu'')
   \<and> history (snd (CreateDocument
                 (exampleEnv (exampleItem ''006'' (Some \<lparr>FileName = ''f.txt''\<rparr>)) noFreeform)
                 (cannedClient ''Man'' None)
                 (exampleItem ''006'' (Some \<lparr>FileName = ''f.txt''\<rparr>)) ''Man''))
       = [([''create'', ''document'', ''-'', ''--title=t1'', ''--filename=f.txt'',
            ''--vault=v1''], Some ''Man'')]"
proof -
  let ?v = "exampleItem ''006'' (Some \<lparr>FileName = ''f.txt''\<rparr>)"
  have t: "Template ?v = Category2Template DocumentCategory"
    by (simp add: exampleItem_def Category2Template_def Category_defs)
  have da: "DocumentAttributes (Details ?v) = Some \<lparr>FileName = ''f.txt''\<rparr>"
    by (simp add: exampleItem_def)
  have args: "createDocumentArgs ?v \<lparr>FileName = ''f.txt''\<rparr>
              = [''create'', ''document'', ''-'', ''--title=t1'', ''--filename=f.txt'',
                 ''--vault=v1'']"
    by (simp add: createDocumentArgs_def exampleItem_def Let_def opPasswordCreate_def
        DocumentResource_def Stdin_def)
  have h: "history (cannedClient ''Man'' None) = []"
    by (simp add: cannedClient_def)
  let ?env = "exampleEnv ?v noFreeform"
  let ?d = "exampleData (\<lambda>key. VStr [])"
  let ?cl = "cannedClient ''Man'' None"
  have rd: "fst (ReadItem ?env ?cl (getID ?env ?d) []) = Inr (Some ?v)"
    by (rule example_read)
  have rdoc: "fst (ReadDocument (snd (ReadItem ?env ?cl (getID ?env ?d) [])) (UUID ?v))
              = Inr ''Man''"
    by (rule example_read_document)
  note inst = document_content [OF example_vault rd t da example_accepts rdoc,
      where w = ?v and wa = "\<lparr>FileName = ''f.txt''\<rparr>", unfolded b64_Man]
  show ?thesis
    using inst example_vault t example_accepts da args h
    by simp
qed

subsection \<open>Creating\<close>

text \<open>
  Claim C9. When the create command succeeds but \<^verbatim>\<open>getResultID\<close> fails on its output,
  \<^verbatim>\<open>CreateItem\<close> and \<^verbatim>\<open>CreateDocument\<close> return no error, and the item is returned as
  it was given: its UUID is unchanged.
\<close>

theorem create_discards_uuid_error:
  assumes "getResultID env res = Inl e"
  shows "(json_Marshal env (Details v) = Inr details
          \<and> Template2Category (Template v) \<noteq> UnknownCategory
          \<and> respond cl (history cl) (createItemArgs v (base64url_Encode env details), None)
              = (res, None)
          \<longrightarrow> fst (CreateItem env cl v) = Inr v)
       \<and> (DocumentAttributes (Details v) = Some da
          \<and> respond cl (history cl) (createDocumentArgs v da, Some content) = (res, None)
          \<longrightarrow> fst (CreateDocument env cl v content) = Inr v)"
  using assms
  by (simp add: CreateItem_def CreateDocument_def RunSimpleCmd_def RunStdinCmd_def Let_def)

theorem create_discards_uuid_error_witness:
  "getResultID (exampleEnv (exampleItem ''001'' (Some \<lparr>FileName = ''f.txt''\<rparr>)) noFreeform) []
     = Inl (LibraryError ''no uuid'')
   \<and> Template2Category (Template (exampleItem ''001'' (Some \<lparr>FileName = ''f.txt''\<rparr>)))
       \<noteq> UnknownCategory
   \<and> fst (CreateItem (exampleEnv (exampleItem ''001'' (Some \<lparr>FileName = ''f.txt''\<rparr>)) noFreeform)
            (cannedClient [] None) (exampleItem ''001'' (Some \<lparr>FileName = ''f.txt''\<rparr>)))
       = Inr (exampleItem ''001'' (Some \<lparr>FileName = ''f.txt''\<rparr>))
   \<and> fst (CreateDocument (exampleEnv (exampleItem ''001'' (Some \<lparr>FileName = ''f.txt''\<rparr>)) noFreeform)
            (cannedClient [] None) (exampleItem ''001'' (Some \<lparr>FileName = ''f.txt''\<rparr>)) ''Man'')
       = Inr (exampleItem ''001'' (Some \<lparr>FileName = ''f.txt''\<rparr>))"
proof -
  let ?v = "exampleItem ''001'' (Some \<lparr>FileName = ''f.txt''\<rparr>)"
  let ?env = "exampleEnv ?v noFreeform"
  have g: "getResultID ?env [] = Inl (LibraryError ''no uuid'')"
    by (simp add: exampleEnv_def)
  have m: "json_Marshal ?env (Details ?v) = Inr ''{}''"
    by (simp add: exampleEnv_def)
  have t: "Template2Category (Template ?v) \<noteq> UnknownCategory"
    by (simp add: exampleItem_def Template2Category_def Category_defs)
  have da: "DocumentAttributes (Details ?v) = Some \<lparr>FileName = ''f.txt''\<rparr>"
    by (simp add: exampleItem_def)
  have r: "respond (cannedClient [] None) h i = ([], None)" for h i
    by (simp add: cannedClient_def)
  show ?thesis
    using create_discards_uuid_error [OF g, of ?v "''{}''" "cannedClient [] None"
        "\<lparr>FileName = ''f.txt''\<rparr>" "''Man''"] g m t da r
    by simp
qed

subsection \<open>The decoder\<close>

lemmas SectionFieldType_defs =
  TypeSex_def TypeCard_def TypeAddress_def TypeString_def TypeURL_def TypeEmail_def
  TypeDate_def TypeMonthYear_def TypeConcealed_def TypePhone_def TypeReference_def

lemma matchGroupFields_found:
  "snd (matchGroupFields f gfs (src, found)) = (found \<or> N f \<in> snd ` set gfs)"
proof (induction gfs arbitrary: src found)
  case Nil
  then show ?case by simp
next
  case (Cons p gfs)
  obtain k n where p: "p = (k, n)" by (cases p)
  show ?case using Cons [of "AList.update k (SectionField.Value f) src" True] Cons [of src found]
    by (cases "n = N f") (auto simp: p)
qed

lemma matchGroupFields_map:
  "map_of (fst (matchGroupFields f gfs (src, found))) key =
     (if (key, N f) \<in> set gfs then Some (SectionField.Value f) else map_of src key)"
proof (induction gfs arbitrary: src found)
  case Nil
  then show ?case by simp
next
  case (Cons p gfs)
  obtain k n where p: "p = (k, n)" by (cases p)
  show ?case using Cons [of "AList.update k (SectionField.Value f) src" True] Cons [of src found]
    by (cases "n = N f") (auto simp: p update_conv')
qed

lemma partitionFields_left:
  "snd (partitionFields gfs fs (src, left)) = left @ filter (\<lambda>f. N f \<notin> snd ` set gfs) fs"
proof (induction fs arbitrary: src left)
  case Nil
  then show ?case by simp
next
  case (Cons f fs)
  obtain src' found where m: "matchGroupFields f gfs (src, False) = (src', found)"
    by (cases "matchGroupFields f gfs (src, False)")
  have "found = (N f \<in> snd ` set gfs)"
    using matchGroupFields_found [of f gfs src False] m by simp
  then show ?case using Cons m by simp
qed

lemma partitionFields_map:
  "map_of (fst (partitionFields gfs fs (src, left))) key =
     (case filter (\<lambda>f. (key, N f) \<in> set gfs) fs of
        [] \<Rightarrow> map_of src key
      | xs \<Rightarrow> Some (SectionField.Value (last xs)))"
proof (induction fs arbitrary: src left)
  case Nil
  then show ?case by simp
next
  case (Cons f fs)
  obtain src' found where m: "matchGroupFields f gfs (src, False) = (src', found)"
    by (cases "matchGroupFields f gfs (src, False)")
  have s: "map_of src' key =
             (if (key, N f) \<in> set gfs then Some (SectionField.Value f) else map_of src key)"
    using matchGroupFields_map [of f gfs src False key] m by simp
  show ?case using Cons [of src'] m s by (simp split: list.splits)
qed

lemma groupSource_map:
  "map_of (groupSource grp sect) key =
     (if key = ''field''
      then Some (VList (map VObj (ProcessField
             (filter (\<lambda>f. N f \<notin> snd ` set (SectionGroup.Fields grp)) (Section.Fields sect)))))
      else case filter (\<lambda>f. (key, N f) \<in> set (SectionGroup.Fields grp)) (Section.Fields sect) of
             [] \<Rightarrow> (if key = ''title'' then Some (VStr (Section.Title sect)) else None)
           | xs \<Rightarrow> Some (SectionField.Value (last xs)))"
proof -
  obtain src left where p:
    "partitionFields (SectionGroup.Fields grp) (Section.Fields sect)
       ([(''title'', VStr (Section.Title sect))], []) = (src, left)"
    by (cases "partitionFields (SectionGroup.Fields grp) (Section.Fields sect)
       ([(''title'', VStr (Section.Title sect))], [])")
  have l: "left = filter (\<lambda>f. N f \<notin> snd ` set (SectionGroup.Fields grp)) (Section.Fields sect)"
    using partitionFields_left [of "SectionGroup.Fields grp" "Section.Fields sect"
        "[(''title'', VStr (Section.Title sect))]" "[]"] p by simp
  have s: "map_of src key =
     (case filter (\<lambda>f. (key, N f) \<in> set (SectionGroup.Fields grp)) (Section.Fields sect) of
        [] \<Rightarrow> map_of [(''title'', VStr (Section.Title sect))] key
      | xs \<Rightarrow> Some (SectionField.Value (last xs)))"
    using partitionFields_map [of "SectionGroup.Fields grp" "Section.Fields sect"
        "[(''title'', VStr (Section.Title sect))]" "[]" key] p by simp
  show ?thesis
    using l s by (simp add: groupSource_def p update_conv' split: list.splits)
qed

lemma accepts_writeAttr: "accepts (writeAttr w d) = accepts d"
  by (simp add: writeAttr_def)

lemma accepts_fold_writeAttr: "accepts (fold writeAttr ws d) = accepts d"
  by (induction ws arbitrary: d) (simp_all add: accepts_writeAttr)

lemma d_Set_writeAttr:
  "\<forall>key x. accepts d key x \<Longrightarrow> d_Set d key v = Inr (writeAttr (key, v) d)"
  by (simp add: d_Set_def writeAttr_def)

lemma groupsLoop_accepted:
  "\<forall>key x. accepts d key x \<Longrightarrow>
   groupsLoop sect groups (d, use) =
     Inr (fold writeAttr
            (map (\<lambda>grp. (SectionGroup.Name grp, VList [VObj (groupSource grp sect)]))
                 (filter (\<lambda>grp. Section.Name sect = Selector grp) groups)) d,
          use \<or> selects groups sect)"
proof (induction groups arbitrary: d use)
  case Nil
  then show ?case by (simp add: selects_def)
next
  case (Cons grp groups)
  show ?case
  proof (cases "Section.Name sect = Selector grp")
    case True
    let ?w = "(SectionGroup.Name grp, VList [VObj (groupSource grp sect)])"
    have a: "\<forall>key x. accepts (writeAttr ?w d) key x"
      using Cons.prems by (simp add: accepts_writeAttr)
    show ?thesis
      using True Cons.IH [OF a, of True] d_Set_writeAttr [OF Cons.prems]
      by (simp add: selects_def)
  next
    case False
    then show ?thesis
      using Cons.IH [OF Cons.prems, of use] by (auto simp: selects_def)
  qed
qed

lemma sectionsLoop_accepted:
  "\<forall>key x. accepts d key x \<Longrightarrow>
   sectionsLoop groups sections (d, left) =
     Inr (fold writeAttr
            (concat (map (\<lambda>sect.
                map (\<lambda>grp. (SectionGroup.Name grp, VList [VObj (groupSource grp sect)]))
                    (filter (\<lambda>grp. Section.Name sect = Selector grp) groups))
              sections)) d,
          left @ filter (\<lambda>sect. \<not> selects groups sect) sections)"
proof (induction sections arbitrary: d left)
  case Nil
  then show ?case by simp
next
  case (Cons sect sections)
  let ?ws = "map (\<lambda>grp. (SectionGroup.Name grp, VList [VObj (groupSource grp sect)]))
                 (filter (\<lambda>grp. Section.Name sect = Selector grp) groups)"
  have a: "\<forall>key x. accepts (fold writeAttr ?ws d) key x"
    using Cons.prems by (simp add: accepts_fold_writeAttr)
  show ?case
    using groupsLoop_accepted [OF Cons.prems, of sect groups False] Cons.IH [OF a]
    by simp
qed

lemma parseSectionFromSchema_accepted:
  "\<forall>key x. accepts d key x \<Longrightarrow>
   parseSectionFromSchema sections d groups
     = Inr (fold writeAttr (decodeWrites sections groups) d)"
proof -
  assume a: "\<forall>key x. accepts d key x"
  let ?ws = "concat (map (\<lambda>sect.
                map (\<lambda>grp. (SectionGroup.Name grp, VList [VObj (groupSource grp sect)]))
                    (filter (\<lambda>grp. Section.Name sect = Selector grp) groups))
              sections)"
  have b: "\<forall>key x. accepts (fold writeAttr ?ws d) key x"
    using a by (simp add: accepts_fold_writeAttr)
  show ?thesis
    using sectionsLoop_accepted [OF a, of groups sections "[]"] d_Set_writeAttr [OF b]
    by (simp add: parseSectionFromSchema_def decodeWrites_def)
qed

lemma attrs_fold_writeAttr:
  "attrs (fold writeAttr ws d) key =
     (case map_of (rev ws) key of None \<Rightarrow> attrs d key | Some v \<Rightarrow> v)"
proof (induction ws arbitrary: d)
  case Nil
  then show ?case by simp
next
  case (Cons w ws)
  show ?case
    using Cons [of "writeAttr w d"]
    by (cases w) (simp add: writeAttr_def map_add_def split: option.splits)
qed

lemma example_keys:
  "fieldKey (exampleField ''string'' ''username'' ''user name'' (VStr ''ada'')) = ''string''"
  "fieldKey (exampleField ''concealed'' ''TOTP_1'' ''one-time'' (VStr ''123'')) = ''totp''"
  "fieldKey (exampleField ''concealed'' ''note'' ''note'' (VStr ''n'')) = ''concealed''"
  by (simp_all add: fieldKey_def exampleField_def SectionFieldType_defs)

lemma example_groupSource:
  "groupSource exampleGroup loginSection =
     [(''title'', VStr ''Login''), (''user'', VStr ''ada''),
      (''field'', VList [VObj [(''name'', VStr ''one-time''), (''totp'', VStr ''123'')]])]"
  by (simp add: groupSource_def exampleGroup_def loginSection_def ProcessField_def example_keys)
     (simp add: exampleField_def)

lemma example_decodeWrites:
  "decodeWrites [loginSection, miscSection] [exampleGroup] =
     [(''account'', VList [VObj (groupSource exampleGroup loginSection)]),
      (''section'',
       VList [VObj [(''name'', VStr ''Misc''),
                    (''field'', VList [VObj [(''name'', VStr ''note''),
                                             (''concealed'', VStr ''n'')]])]])]"
  by (simp add: decodeWrites_def selects_def ProcessSections_def ProcessField_def example_keys
      miscSection_def)
     (simp add: exampleGroup_def loginSection_def exampleField_def)

text \<open>
  Claim C2, as amended. For every list of sections and every list of groups, when the
  framework accepts the writes, \<^verbatim>\<open>parseSectionFromSchema\<close> succeeds and has performed
  exactly the writes of \<open>decodeWrites\<close>: it compares the name of each section with the
  selector of every group, in the order of the group list and by equality, and every group
  whose selector equals the name (not only the first one) receives the attributes of the
  section. For such a pair the fields are partitioned: the attribute \<open>key\<close> of the group
  holds the value of the last field of the section whose field-name key the field map of
  the group gives for \<open>key\<close> (the title, for \<open>title\<close>, when there is no such field), and
  \<open>field\<close> holds the generic rendering of the fields whose field-name key is no value
  of the field map, in their order.
\<close>

theorem decode_groups_and_partition:
  assumes "\<forall>key x. accepts d key x"
  shows "parseSectionFromSchema sections d groups
           = Inr (fold writeAttr (decodeWrites sections groups) d)
       \<and> map_of (groupSource grp sect) key =
           (if key = ''field''
            then Some (VList (map VObj (ProcessField
                   (filter (\<lambda>f. N f \<notin> snd ` set (SectionGroup.Fields grp))
                      (Section.Fields sect)))))
            else case filter (\<lambda>f. (key, N f) \<in> set (SectionGroup.Fields grp))
                        (Section.Fields sect) of
                   [] \<Rightarrow> (if key = ''title'' then Some (VStr (Section.Title sect)) else None)
                 | xs \<Rightarrow> Some (SectionField.Value (last xs)))"
  using parseSectionFromSchema_accepted [OF assms] groupSource_map by blast

theorem decode_groups_and_partition_witness:
  "(\<forall>key x. accepts (exampleData noValues) key x)
   \<and> parseSectionFromSchema [loginSection, miscSection] (exampleData noValues) [exampleGroup]
       = Inr (exampleData (noValues
           (''account'' := VList [VObj
              [(''title'', VStr ''Login''), (''user'', VStr ''ada''),
               (''field'', VList [VObj [(''name'', VStr ''one-time''), (''totp'', VStr ''123'')]])]],
            ''section'' := VList [VObj
              [(''name'', VStr ''Misc''),
               (''field'', VList [VObj [(''name'', VStr ''note''), (''concealed'', VStr ''n'')]])]])))
   \<and> map_of (groupSource exampleGroup loginSection) ''user'' = Some (VStr ''ada'')"
proof -
  have a: "\<forall>key x. accepts (exampleData noValues) key x"
    by (simp add: exampleData_def)
  note inst = decode_groups_and_partition [OF a, of "[loginSection, miscSection]" "[exampleGroup]"
      exampleGroup loginSection "''user''"]
  have u: "map_of (groupSource exampleGroup loginSection) ''user'' = Some (VStr ''ada'')"
    by (simp add: example_groupSource)
  have p: "fold writeAttr (decodeWrites [loginSection, miscSection] [exampleGroup])
             (exampleData noValues)
        = exampleData (noValues
           (''account'' := VList [VObj
              [(''title'', VStr ''Login''), (''user'', VStr ''ada''),
               (''field'', VList [VObj [(''name'', VStr ''one-time''), (''totp'', VStr ''123'')]])]],
            ''section'' := VList [VObj
              [(''name'', VStr ''Misc''),
               (''field'', VList [VObj [(''name'', VStr ''note''), (''concealed'', VStr ''n'')]])]]))"
    by (simp add: example_decodeWrites example_groupSource writeAttr_def exampleData_def)
  show ?thesis using inst a u p by simp
qed

text \<open>
  The claim C2 as the spec states it lets a section match at most the first group whose
  selector equals its name. With two groups that have the same selector, the section
  populates the second group as well.
\<close>

theorem decode_first_group_counterexample:
  "parseSectionFromSchema
     [\<lparr>Section.Name = ''login'', Section.Title = ''Login'', Section.Fields = []\<rparr>]
     (exampleData noValues)
     [\<lparr>Selector = ''login'', SectionGroup.Name = ''first'', SectionGroup.Fields = []\<rparr>,
      \<lparr>Selector = ''login'', SectionGroup.Name = ''second'', SectionGroup.Fields = []\<rparr>]
   = Inr (exampleData (noValues
       (''first'' := VList [VObj [(''title'', VStr ''Login''), (''field'', VList [])]],
        ''second'' := VList [VObj [(''title'', VStr ''Login''), (''field'', VList [])]],
        ''section'' := VList [])))"
  by (simp add: parseSectionFromSchema_def d_Set_def exampleData_def groupSource_def
      ProcessField_def ProcessSections_def)

text \<open>
  Claim C3, as amended. When the framework accepts the writes, the sections whose name is
  the selector of no group are written to \<open>section\<close> in their order, each as
  \<open>{name: title, field: [...]}\<close>; each of their fields, and each leftover field of a
  matched group, is the map \<open>{name: displayText}\<close> with the value stored under the key of
  the field; and the key is \<open>sex\<close> for the kind \<open>menu\<close>, \<open>url\<close> for \<open>URL\<close>,
  \<open>month_year\<close> for \<open>monthYear\<close>, \<open>card_type\<close> for \<open>cctype\<close>, \<open>totp\<close> for
  \<open>concealed\<close> when the field-name key begins with \<open>TOTP_\<close> and \<open>concealed\<close> otherwise,
  and for every other kind the kind itself, unchanged.
\<close>

theorem generic_rendering:
  assumes "\<forall>key x. accepts d key x"
  shows "(\<exists>d'. parseSectionFromSchema sections d groups = Inr d'
            \<and> d_Get d' ''section'' =
                VList (map (\<lambda>sect. VObj
                         [(''name'', VStr (Section.Title sect)),
                          (''field'', VList (map (\<lambda>f. VObj
                              (AList.update (fieldKey f) (SectionField.Value f)
                                 [(''name'', VStr (Text f))]))
                            (Section.Fields sect)))])
                       (filter (\<lambda>sect. Section.Name sect \<notin> set (map Selector groups))
                          sections)))
       \<and> map_of (groupSource grp sect) ''field'' =
           Some (VList (map (\<lambda>f. VObj
                   (AList.update (fieldKey f) (SectionField.Value f) [(''name'', VStr (Text f))]))
                 (filter (\<lambda>f. N f \<notin> snd ` set (SectionGroup.Fields grp))
                    (Section.Fields sect))))
       \<and> map_of (AList.update (fieldKey f) (SectionField.Value f) [(''name'', VStr (Text f))])
           = [''name'' \<mapsto> VStr (Text f), fieldKey f \<mapsto> SectionField.Value f]
       \<and> fieldKey f =
           (if SectionField.Type f = ''menu'' then ''sex''
            else if SectionField.Type f = ''URL'' then ''url''
            else if SectionField.Type f = ''monthYear'' then ''month_year''
            else if SectionField.Type f = ''cctype'' then ''card_type''
            else if SectionField.Type f = ''concealed''
              then (if prefix ''TOTP_'' (N f) then ''totp'' else ''concealed'')
            else SectionField.Type f)"
proof -
  let ?left = "filter (\<lambda>sect. Section.Name sect \<notin> set (map Selector groups)) sections"
  let ?v = "VList (map VObj (ProcessSections ?left))"
  have "map_of (rev (decodeWrites sections groups)) ''section'' = Some ?v"
    by (simp add: decodeWrites_def selects_def)
  then have "d_Get (fold writeAttr (decodeWrites sections groups) d) ''section'' = ?v"
    by (simp add: d_Get_def attrs_fold_writeAttr)
  then have 1: "\<exists>d'. parseSectionFromSchema sections d groups = Inr d'
            \<and> d_Get d' ''section'' =
                VList (map (\<lambda>sect. VObj
                         [(''name'', VStr (Section.Title sect)),
                          (''field'', VList (map (\<lambda>f. VObj
                              (AList.update (fieldKey f) (SectionField.Value f)
                                 [(''name'', VStr (Text f))]))
                            (Section.Fields sect)))])
                       ?left)"
    using parseSectionFromSchema_accepted [OF assms, of sections groups]
    by (simp add: ProcessSections_def ProcessField_def comp_def)
  have 2: "map_of (groupSource grp sect) ''field'' =
           Some (VList (map (\<lambda>f. VObj
                   (AList.update (fieldKey f) (SectionField.Value f) [(''name'', VStr (Text f))]))
                 (filter (\<lambda>f. N f \<notin> snd ` set (SectionGroup.Fields grp))
                    (Section.Fields sect))))"
    by (simp add: groupSource_map ProcessField_def comp_def)
  have 3: "map_of (AList.update (fieldKey f) (SectionField.Value f) [(''name'', VStr (Text f))])
           = [''name'' \<mapsto> VStr (Text f), fieldKey f \<mapsto> SectionField.Value f]"
    by (auto simp: fun_eq_iff)
  have 4: "fieldKey f =
           (if SectionField.Type f = ''menu'' then ''sex''
            else if SectionField.Type f = ''URL'' then ''url''
            else if SectionField.Type f = ''monthYear'' then ''month_year''
            else if SectionField.Type f = ''cctype'' then ''card_type''
            else if SectionField.Type f = ''concealed''
              then (if prefix ''TOTP_'' (N f) then ''totp'' else ''concealed'')
            else SectionField.Type f)"
    by (simp add: fieldKey_def SectionFieldType_defs)
  show ?thesis using 1 2 3 4 by blast
qed

theorem generic_rendering_witness:
  "(\<forall>key x. accepts (exampleData noValues) key x)
   \<and> (\<exists>d'. parseSectionFromSchema [loginSection, miscSection] (exampleData noValues)
              [exampleGroup] = Inr d'
          \<and> d_Get d' ''section'' =
              VList [VObj [(''name'', VStr ''Misc''),
                           (''field'', VList [VObj [(''name'', VStr ''note''),
                                                    (''concealed'', VStr ''n'')]])]])
   \<and> map_of (groupSource exampleGroup loginSection) ''field'' =
       Some (VList [VObj [(''name'', VStr ''one-time''), (''totp'', VStr ''123'')]])"
proof -
  have a: "\<forall>key x. accepts (exampleData noValues) key x"
    by (simp add: exampleData_def)
  note inst = generic_rendering [OF a, of "[loginSection, miscSection]" "[exampleGroup]"
      exampleGroup loginSection "exampleField ''concealed'' ''note'' ''note'' (VStr ''n'')"]
  have l: "filter (\<lambda>sect. Section.Name sect \<notin> set (map Selector [exampleGroup]))
             [loginSection, miscSection] = [miscSection]"
    by (simp add: exampleGroup_def loginSection_def miscSection_def)
  have m: "Section.Title miscSection = ''Misc''"
    "Section.Fields miscSection = [exampleField ''concealed'' ''note'' ''note'' (VStr ''n'')]"
    by (simp_all add: miscSection_def)
  have t: "Text (exampleField ''concealed'' ''note'' ''note'' (VStr ''n'')) = ''note''"
    "SectionField.Value (exampleField ''concealed'' ''note'' ''note'' (VStr ''n'')) = VStr ''n''"
    by (simp_all add: exampleField_def)
  have g: "map_of (groupSource exampleGroup loginSection) ''field'' =
       Some (VList [VObj [(''name'', VStr ''one-time''), (''totp'', VStr ''123'')]])"
    by (simp add: example_groupSource)
  from inst have "\<exists>d'. parseSectionFromSchema [loginSection, miscSection] (exampleData noValues)
              [exampleGroup] = Inr d'
          \<and> d_Get d' ''section'' =
              VList [VObj [(''name'', VStr ''Misc''),
                           (''field'', VList [VObj [(''name'', VStr ''note''),
                                                    (''concealed'', VStr ''n'')]])]]"
    unfolding l by (simp add: m t example_keys)
  then show ?thesis using a g by blast
qed

text \<open>
  The claim C3 as the spec states it maps every other kind to its lowercase kind name. The
  kind is used as it is: a field of kind \<open>Custom\<close> is rendered under the key \<open>Custom\<close>.
\<close>

theorem generic_key_counterexample:
  "ProcessField [exampleField ''Custom'' ''k1'' ''shown'' (VStr ''x'')]
     = [[(''name'', VStr ''shown''), (''Custom'', VStr ''x'')]]
   \<and> ''Custom'' \<noteq> ''custom''"
  by (simp add: ProcessField_def fieldKey_def exampleField_def SectionFieldType_defs)

subsection \<open>Encoding an identity and decoding it again\<close>

lemma assertString_Some: "assertString v = Some s \<Longrightarrow> v = VStr s"
  by (cases v) (simp_all add: assertString_def)

lemma assertInt_Some: "assertInt v = Some i \<Longrightarrow> v = VInt i"
  by (cases v) (simp_all add: assertInt_def)

lemma assertMap_Some: "assertMap v = Some m \<Longrightarrow> v = VObj m"
  by (cases v) (simp_all add: assertMap_def)

lemma identitySections_shape:
  assumes "identitySections env cfg main address internet = Some secs"
  shows "\<exists>s1 s2 s3 known.
           secs = [s1, s2, s3] @ ParseSections env cfg
         \<and> Section.Name s1 = ''name'' \<and> Section.Name s2 = ''address''
         \<and> Section.Name s3 = ''internet''
         \<and> Section.Fields s1 = known @ ParseFields env main
         \<and> map (\<lambda>f. (N f, SectionField.Value f)) known =
             [(''firstname'', mapIndex main ''firstname''), (''initial'', mapIndex main ''initial''),
              (''lastname'', mapIndex main ''lastname''), (''sex'', mapIndex main ''sex''),
              (''birthdate'', mapIndex main ''birth_date''),
              (''occupation'', mapIndex main ''occupation''),
              (''company'', mapIndex main ''company''),
              (''department'', mapIndex main ''department''),
              (''jobtitle'', mapIndex main ''job_title'')]"
  using assms unfolding identitySections_def
  by (clarsimp simp: bind_eq_Some_conv dest!: assertString_Some assertInt_Some assertMap_Some)

lemma last_value_by_key:
  "(case filter (\<lambda>f. Q (N f)) fs of [] \<Rightarrow> a | xs \<Rightarrow> Some (SectionField.Value (last xs)))
   = (case filter (\<lambda>p. Q (fst p)) (map (\<lambda>f. (N f, SectionField.Value f)) fs) of
        [] \<Rightarrow> a | ps \<Rightarrow> Some (snd (last ps)))"
proof -
  have eq: "filter (\<lambda>p. Q (fst p)) (map (\<lambda>f. (N f, SectionField.Value f)) fs)
        = map (\<lambda>f. (N f, SectionField.Value f)) (filter (\<lambda>f. Q (N f)) fs)"
    by (induction fs) simp_all
  show ?thesis
    unfolding eq by (cases "filter (\<lambda>f. Q (N f)) fs") (simp_all add: last_map)
qed

lemma identityItem_sections:
  assumes "identityItem env cfg = Inr item"
    and "groupConfig cfg ''identification'' = Inr main"
  shows "\<exists>address internet.
           groupConfig cfg ''address'' = Inr address
         \<and> groupConfig cfg ''internet'' = Inr internet
         \<and> identitySections env cfg main address internet = Some (Sections (Details item))"
  using assms unfolding identityItem_def itemLiteral_def
  by (auto simp: bind_eq_Some_conv split: sum.splits option.splits)

lemma no_identification_write:
  assumes "Section.Name sect \<noteq> ''name''"
  shows "map_of (rev (map (\<lambda>grp. (SectionGroup.Name grp, VList [VObj (groupSource grp sect)]))
                       (filter (\<lambda>grp. Section.Name sect = Selector grp) identityGroups)))
           ''identification'' = None"
  using assms by (auto simp: identityGroups_def)

lemma no_identification_writes:
  assumes "\<forall>sect \<in> set sections. Section.Name sect \<noteq> ''name''"
  shows "map_of (rev (concat (map (\<lambda>sect.
            map (\<lambda>grp. (SectionGroup.Name grp, VList [VObj (groupSource grp sect)]))
                (filter (\<lambda>grp. Section.Name sect = Selector grp) identityGroups)) sections)))
           ''identification'' = None"
  using assms
proof (induction sections)
  case Nil
  then show ?case by simp
next
  case (Cons sect sections)
  then show ?case
    using no_identification_write [of sect]
    by (simp add: map_add_def del: filter.simps)
qed

lemma groupSource_known:
  assumes "Section.Fields sect = known @ free"
    and "\<forall>g \<in> set free. N g \<notin> snd ` set (SectionGroup.Fields grp)"
    and "key \<noteq> ''field''"
  shows "map_of (groupSource grp sect) key =
     (case filter (\<lambda>p. (key, fst p) \<in> set (SectionGroup.Fields grp))
             (map (\<lambda>f. (N f, SectionField.Value f)) known) of
        [] \<Rightarrow> (if key = ''title'' then Some (VStr (Section.Title sect)) else None)
      | ps \<Rightarrow> Some (snd (last ps)))"
proof -
  have "filter (\<lambda>f. (key, N f) \<in> set (SectionGroup.Fields grp)) free = []"
    using assms(2) by (force simp: filter_empty_conv)
  then have "filter (\<lambda>f. (key, N f) \<in> set (SectionGroup.Fields grp)) (Section.Fields sect)
        = filter (\<lambda>f. (key, N f) \<in> set (SectionGroup.Fields grp)) known"
    by (simp add: assms(1))
  then show ?thesis
    using groupSource_map [of grp sect key] assms(3)
      last_value_by_key [where Q = "\<lambda>n. (key, n) \<in> set (SectionGroup.Fields grp)"
        and fs = known]
    by simp
qed

lemma groupSource_leftover:
  assumes "Section.Fields sect = known @ free"
    and "\<forall>g \<in> set free. N g \<notin> snd ` set (SectionGroup.Fields grp)"
    and "set (map N known) \<subseteq> snd ` set (SectionGroup.Fields grp)"
  shows "map_of (groupSource grp sect) ''field'' = Some (VList (map VObj (ProcessField free)))"
proof -
  have "filter (\<lambda>f. N f \<notin> snd ` set (SectionGroup.Fields grp)) known = []"
    using assms(3) by (auto simp: filter_empty_conv)
  moreover have "filter (\<lambda>f. N f \<notin> snd ` set (SectionGroup.Fields grp)) free = free"
    using assms(2) by (auto simp: filter_id_conv)
  ultimately show ?thesis
    using groupSource_map [of grp sect "''field''"] by (simp add: assms(1))
qed

lemma ada_main: "groupConfig (exampleData adaConfig) ''identification'' = Inr adaIdentification"
  by (simp add: groupConfig_def d_Get_def exampleData_def adaConfig_def assertSlice_def
      assertMap_def)

lemma ada_values:
  "mapIndex adaIdentification ''firstname'' = VStr ''Ada''"
  "mapIndex adaIdentification ''lastname'' = VStr ''Lovelace''"
  "mapIndex adaIdentification ''sex'' = VStr ''female''"
  by (simp_all add: mapIndex_def adaIdentification_def)

lemma ada_field:
  "mapIndex adaIdentification ''field''
     = VList [VObj [(''name'', VStr ''nickname''), (''string'', VStr ''Countess'')]]"
  by (simp add: mapIndex_def adaIdentification_def)

lemma ada_freeform:
  "ParseFields (exampleEnv item exampleFreeform) adaIdentification
     = [exampleField ''string'' ''nickname'' ''nickname'' (VStr ''Countess'')]"
  by (simp add: exampleEnv_def exampleFreeform_def entryField_def mapIndex_def
      adaIdentification_def)

lemma ada_generic: "ParseSections (exampleEnv item exampleFreeform) cfg = []"
  by (simp add: exampleEnv_def)

lemma ada_sections:
  "\<exists>secs. identitySections (exampleEnv item exampleFreeform) (exampleData adaConfig)
            adaIdentification adaAddress adaInternet = Some secs"
  by (simp add: identitySections_def mapIndex_def adaIdentification_def adaAddress_def
      adaInternet_def assertString_def assertInt_def assertMap_def)

lemma ada_item:
  "\<exists>it. identityItem (exampleEnv item exampleFreeform) (exampleData adaConfig) = Inr it"
proof -
  obtain secs where "identitySections (exampleEnv item exampleFreeform) (exampleData adaConfig)
            adaIdentification adaAddress adaInternet = Some secs"
    using ada_sections by blast
  then show ?thesis
    by (simp add: identityItem_def itemLiteral_def groupConfig_def d_Get_def exampleData_def
        adaConfig_def assertSlice_def assertMap_def assertString_def)
qed

text \<open>
  The round trip of a configuration that declares all three groups. Take a configuration
  from which \<^verbatim>\<open>resourceItemIdentityCreate\<close> builds its item, whose identification group
  has the first name Ada, the last name Lovelace and the sex female, and an entry
  \<open>{name: t, string: v}\<close> among its \<open>field\<close> entries. Let the freeform fields that
  \<^verbatim>\<open>ParseFields\<close> gives for the group hold the field of kind \<open>string\<close> with the display
  name \<open>t\<close> and the value \<open>v\<close>, none of them under the field-name key of a well-known
  field, and let no generic section be named \<open>name\<close>. Then decoding the sections of the
  item under the groups of the identity resource succeeds (the framework accepting the
  writes), the identification group has \<open>firstname\<close> Ada, \<open>lastname\<close> Lovelace and
  \<open>sex\<close> female again, and its list of extra fields contains the entry
  \<open>{name: t, string: v}\<close> of the configuration, wherever the field stands among the
  freeform fields.
\<close>

lemma identity_round_trip_all_groups:
  assumes item: "identityItem env cfg = Inr item"
    and main: "groupConfig cfg ''identification'' = Inr main"
    and first: "mapIndex main ''firstname'' = VStr ''Ada''"
    and last: "mapIndex main ''lastname'' = VStr ''Lovelace''"
    and sex: "mapIndex main ''sex'' = VStr ''female''"
    and entries: "mapIndex main ''field'' = VList entries"
    and entry: "VObj [(''name'', VStr t), (''string'', v)] \<in> set entries"
    and f: "f \<in> set (ParseFields env main)"
    and kind: "SectionField.Type f = ''string''"
    and ftext: "Text f = t"
    and fval: "SectionField.Value f = v"
    and keys: "\<forall>g \<in> set (ParseFields env main).
                 N g \<notin> {''firstname'', ''initial'', ''lastname'', ''sex'', ''birthdate'',
                         ''occupation'', ''company'', ''department'', ''jobtitle''}"
    and generic: "\<forall>sect \<in> set (ParseSections env cfg). Section.Name sect \<noteq> ''name''"
    and acc: "\<forall>key x. accepts d key x"
  shows "\<exists>d' src fields.
           parseSectionFromSchema (Sections (Details item)) d identityGroups = Inr d'
         \<and> d_Get d' ''identification'' = VList [VObj src]
         \<and> map_of src ''firstname'' = Some (VStr ''Ada'')
         \<and> map_of src ''lastname'' = Some (VStr ''Lovelace'')
         \<and> map_of src ''sex'' = Some (VStr ''female'')
         \<and> map_of src ''field'' = Some (VList fields)
         \<and> VObj [(''name'', VStr t), (''string'', v)] \<in> set fields"
proof -
  let ?gfs = "[(''firstname'', ''firstname''), (''initial'', ''initial''),
         (''lastname'', ''lastname''), (''sex'', ''sex''), (''birth_date'', ''birthdate''),
         (''occupation'', ''occupation''), (''company'', ''company''),
         (''department'', ''department''), (''job_title'', ''jobtitle'')]"
  let ?g1 = "\<lparr>Selector = ''name'', SectionGroup.Name = ''identification'',
              SectionGroup.Fields = ?gfs\<rparr>"
  let ?W = "\<lambda>sect. map (\<lambda>grp. (SectionGroup.Name grp, VList [VObj (groupSource grp sect)]))
                (filter (\<lambda>grp. Section.Name sect = Selector grp) identityGroups)"
  let ?PF = "ParseFields env main"
  obtain address internet where
    enc: "identitySections env cfg main address internet = Some (Sections (Details item))"
    using identityItem_sections [OF item main] by blast
  from identitySections_shape [OF enc] obtain s1 s2 s3 known where shape:
    "Sections (Details item) = [s1, s2, s3] @ ParseSections env cfg
      \<and> Section.Name s1 = ''name'' \<and> Section.Name s2 = ''address''
      \<and> Section.Name s3 = ''internet''
      \<and> Section.Fields s1 = known @ ?PF
      \<and> map (\<lambda>f. (N f, SectionField.Value f)) known =
             [(''firstname'', mapIndex main ''firstname''), (''initial'', mapIndex main ''initial''),
              (''lastname'', mapIndex main ''lastname''), (''sex'', mapIndex main ''sex''),
              (''birthdate'', mapIndex main ''birth_date''),
              (''occupation'', mapIndex main ''occupation''),
              (''company'', mapIndex main ''company''),
              (''department'', mapIndex main ''department''),
              (''jobtitle'', mapIndex main ''job_title'')]"
    by (elim exE)
  from shape have secs: "Sections (Details item) = [s1, s2, s3] @ ParseSections env cfg"
    and n1: "Section.Name s1 = ''name''" and n2: "Section.Name s2 = ''address''"
    and n3: "Section.Name s3 = ''internet''"
    and f1: "Section.Fields s1 = known @ ?PF"
    and nv: "map (\<lambda>f. (N f, SectionField.Value f)) known =
             [(''firstname'', mapIndex main ''firstname''), (''initial'', mapIndex main ''initial''),
              (''lastname'', mapIndex main ''lastname''), (''sex'', mapIndex main ''sex''),
              (''birthdate'', mapIndex main ''birth_date''),
              (''occupation'', mapIndex main ''occupation''),
              (''company'', mapIndex main ''company''),
              (''department'', mapIndex main ''department''),
              (''jobtitle'', mapIndex main ''job_title'')]"
    by simp_all
  let ?src = "groupSource ?g1 s1"
  let ?d' = "fold writeAttr (decodeWrites (Sections (Details item)) identityGroups) d"
  have parse: "parseSectionFromSchema (Sections (Details item)) d identityGroups = Inr ?d'"
    by (rule parseSectionFromSchema_accepted [OF acc])
  have w1: "?W s1 = [(''identification'', VList [VObj ?src])]"
    using n1 by (simp add: identityGroups_def)
  have w2: "map_of (rev (?W s2)) ''identification'' = None"
    using no_identification_write [of s2] n2 by simp
  have w3: "map_of (rev (?W s3)) ''identification'' = None"
    using no_identification_write [of s3] n3 by simp
  have wx: "map_of (rev (concat (map ?W (ParseSections env cfg)))) ''identification'' = None"
    by (rule no_identification_writes [OF generic])
  have "map_of (rev (decodeWrites (Sections (Details item)) identityGroups)) ''identification''
        = Some (VList [VObj ?src])"
    unfolding decodeWrites_def secs
    using w1 w2 w3 wx by (simp add: map_add_def del: filter.simps)
  then have ident: "d_Get ?d' ''identification'' = VList [VObj ?src]"
    by (simp add: d_Get_def attrs_fold_writeAttr)
  have fr: "\<forall>g \<in> set ?PF. N g \<notin> snd ` set (SectionGroup.Fields ?g1)"
    using keys by simp
  have names: "map N known = [''firstname'', ''initial'', ''lastname'', ''sex'', ''birthdate'',
                       ''occupation'', ''company'', ''department'', ''jobtitle'']"
    using arg_cong [OF nv, of "map fst"] by (simp add: comp_def)
  have kn: "set (map N known) \<subseteq> snd ` set (SectionGroup.Fields ?g1)"
    unfolding names by simp
  have v1: "map_of ?src ''firstname'' = Some (VStr ''Ada'')"
    using groupSource_known [OF f1 fr, of "''firstname''"] by (simp add: nv first)
  have v2: "map_of ?src ''lastname'' = Some (VStr ''Lovelace'')"
    using groupSource_known [OF f1 fr, of "''lastname''"] by (simp add: nv last)
  have v3: "map_of ?src ''sex'' = Some (VStr ''female'')"
    using groupSource_known [OF f1 fr, of "''sex''"] by (simp add: nv sex)
  have v4: "map_of ?src ''field'' = Some (VList (map VObj (ProcessField ?PF)))"
    by (rule groupSource_leftover [OF f1 fr kn])
  have "fieldKey f = ''string''"
    using kind by (simp add: fieldKey_def SectionFieldType_defs)
  then have "[(''name'', VStr (Text f)), (''string'', SectionField.Value f)]
              \<in> set (ProcessField ?PF)"
    using f by (force simp: ProcessField_def)
  then have v5: "VObj [(''name'', VStr t), (''string'', v)]
              \<in> set (map VObj (ProcessField ?PF))"
    using ftext fval by simp
  show ?thesis using parse ident v1 v2 v3 v4 v5 by blast
qed

text \<open>
  The configuration \<open>adaConfig\<close>, which declares the three groups, is such a one: its item
  is built, and the decoded identification group holds Ada, Lovelace, female and the
  entry \<open>{name: nickname, string: Countess}\<close>.
\<close>

lemma identity_round_trip_example:
  "identityItem (exampleEnv (exampleItem ''004'' None) exampleFreeform) (exampleData adaConfig)
     = Inr (projr (identityItem (exampleEnv (exampleItem ''004'' None) exampleFreeform)
                     (exampleData adaConfig)))
   \<and> groupConfig (exampleData adaConfig) ''identification'' = Inr adaIdentification
   \<and> mapIndex adaIdentification ''field''
       = VList [VObj [(''name'', VStr ''nickname''), (''string'', VStr ''Countess'')]]
   \<and> ParseFields (exampleEnv (exampleItem ''004'' None) exampleFreeform) adaIdentification
       = [exampleField ''string'' ''nickname'' ''nickname'' (VStr ''Countess'')]
   \<and> (\<exists>d' src fields.
         parseSectionFromSchema
           (Sections (Details (projr (identityItem
              (exampleEnv (exampleItem ''004'' None) exampleFreeform) (exampleData adaConfig)))))
           (exampleData noValues) identityGroups = Inr d'
       \<and> d_Get d' ''identification'' = VList [VObj src]
       \<and> map_of src ''firstname'' = Some (VStr ''Ada'')
       \<and> map_of src ''lastname'' = Some (VStr ''Lovelace'')
       \<and> map_of src ''sex'' = Some (VStr ''female'')
       \<and> map_of src ''field'' = Some (VList fields)
       \<and> VObj [(''name'', VStr ''nickname''), (''string'', VStr ''Countess'')] \<in> set fields)"
proof -
  let ?env = "exampleEnv (exampleItem ''004'' None) exampleFreeform"
  let ?f = "exampleField ''string'' ''nickname'' ''nickname'' (VStr ''Countess'')"
  obtain it where it: "identityItem ?env (exampleData adaConfig) = Inr it"
    using ada_item by blast
  have entry: "VObj [(''name'', VStr ''nickname''), (''string'', VStr ''Countess'')]
                 \<in> set [VObj [(''name'', VStr ''nickname''), (''string'', VStr ''Countess'')]]"
    by simp
  have f: "?f \<in> set (ParseFields ?env adaIdentification)"
    by (simp add: ada_freeform)
  have kind: "SectionField.Type ?f = ''string''"
    by (simp add: exampleField_def)
  have tv: "Text ?f = ''nickname''" "SectionField.Value ?f = VStr ''Countess''"
    by (simp_all add: exampleField_def)
  have keys: "\<forall>g \<in> set (ParseFields ?env adaIdentification).
                 N g \<notin> {''firstname'', ''initial'', ''lastname'', ''sex'', ''birthdate'',
                         ''occupation'', ''company'', ''department'', ''jobtitle''}"
    by (simp add: ada_freeform exampleField_def)
  have generic: "\<forall>sect \<in> set (ParseSections ?env (exampleData adaConfig)).
                   Section.Name sect \<noteq> ''name''"
    by (simp add: ada_generic)
  have acc: "\<forall>key x. accepts (exampleData noValues) key x"
    by (simp add: exampleData_def)
  note inst = identity_round_trip_all_groups
      [OF it ada_main ada_values ada_field entry f kind tv keys generic acc]
  show ?thesis
    using inst it ada_main ada_field ada_freeform by simp
qed

text \<open>
  Claim C1. The round trip is claimed for a configuration whose identification group has
  the first name Ada, the last name Lovelace, the sex female and one freeform field of
  kind \<open>string\<close>. The schema of the identity resource declares the address and the internet
  group optional, and \<^verbatim>\<open>resourceItemIdentityCreate\<close> takes the first entry of each of them
  without a test that the group is there. So for the configuration that declares the
  identification group alone, with Ada, Lovelace, female and the freeform field
  \<open>{name: nickname, string: Countess}\<close>, the address and the internet group are the empty
  list, no item and no section is built, and the function ends in the panic of an index
  out of range, whatever the helpers and the client are; the client is left as it was.
\<close>

theorem identity_create_index_out_of_range:
  "groupConfig (exampleData adaOnlyConfig) ''identification'' = Inr adaIdentification
   \<and> mapIndex adaIdentification ''firstname'' = VStr ''Ada''
   \<and> mapIndex adaIdentification ''lastname'' = VStr ''Lovelace''
   \<and> mapIndex adaIdentification ''sex'' = VStr ''female''
   \<and> mapIndex adaIdentification ''field''
       = VList [VObj [(''name'', VStr ''nickname''), (''string'', VStr ''Countess'')]]
   \<and> d_Get (exampleData adaOnlyConfig) ''address'' = VList []
   \<and> d_Get (exampleData adaOnlyConfig) ''internet'' = VList []
   \<and> identityItem env (exampleData adaOnlyConfig) = Inl (Panic ''index out of range'')
   \<and> resourceItemIdentityCreate env (exampleData adaOnlyConfig) cl
       = (Inl (Panic ''index out of range''), cl)"
proof -
  have main: "groupConfig (exampleData adaOnlyConfig) ''identification'' = Inr adaIdentification"
    by (simp add: groupConfig_def d_Get_def exampleData_def adaOnlyConfig_def assertSlice_def
        assertMap_def)
  have address: "groupConfig (exampleData adaOnlyConfig) ''address''
                   = Inl (Panic ''index out of range'')"
    by (simp add: groupConfig_def d_Get_def exampleData_def adaOnlyConfig_def assertSlice_def)
  have item: "identityItem env (exampleData adaOnlyConfig) = Inl (Panic ''index out of range'')"
    by (simp add: identityItem_def main address)
  have config: "d_Get (exampleData adaOnlyConfig) ''address'' = VList []"
    "d_Get (exampleData adaOnlyConfig) ''internet'' = VList []"
    by (simp_all add: d_Get_def exampleData_def adaOnlyConfig_def)
  have create: "resourceItemIdentityCreate env (exampleData adaOnlyConfig) cl
                  = (Inl (Panic ''index out of range''), cl)"
    by (simp add: resourceItemIdentityCreate_def item)
  show ?thesis
    using main item config create by (simp add: mapIndex_def adaIdentification_def)
qed

end
